theory Spec2Isabelle
  imports Complex_Main "HOL-Library.Sublist"
begin

section \<open>Python strings\<close>

text \<open>
  A Python \<open>str\<close> is a sequence of code points. It is modelled as a \<open>string\<close> in which each
  \<open>char\<close> stands for one code point below 256 (the Latin-1 range, which covers the Portuguese
  text of the repository); \<open>length\<close> is then Python's \<open>len\<close>. Code points from 256 on are
  outside the model.
\<close>

definition is_space :: "char \<Rightarrow> bool" where
  \<comment> \<open>\<open>str.isspace\<close>, \<open>str.strip()\<close> and the regex class \<open>\s\<close> on a \<open>str\<close> pattern: the
      code points 9-13, 28-32, 0x85 and 0xA0 (those below 256).\<close>
  "is_space c = (let n = (of_char c :: nat) in
     (9 \<le> n \<and> n \<le> 13) \<or> (28 \<le> n \<and> n \<le> 32) \<or> n = 133 \<or> n = 160)"

definition strip :: "string \<Rightarrow> string" where
  \<comment> \<open>\<open>s.strip()\<close>\<close>
  "strip s = rev (dropWhile is_space (rev (dropWhile is_space s)))"

definition strip_chars :: "char \<Rightarrow> string \<Rightarrow> string" where
  \<comment> \<open>\<open>s.strip(c)\<close> for a one-character argument\<close>
  "strip_chars c s = rev (dropWhile (\<lambda>x. x = c) (rev (dropWhile (\<lambda>x. x = c) s)))"

fun startswith :: "string \<Rightarrow> string \<Rightarrow> bool" where
  \<comment> \<open>\<open>s.startswith(p)\<close>, written \<open>startswith p s\<close>\<close>
  "startswith [] s = True"
| "startswith (p # ps) [] = False"
| "startswith (p # ps) (c # cs) = (p = c \<and> startswith ps cs)"

fun find_sub :: "string \<Rightarrow> string \<Rightarrow> nat option" where
  \<comment> \<open>\<open>s.find(p)\<close>: the index of the first occurrence of \<open>p\<close> in \<open>s\<close>, \<open>None\<close> for Python's -1\<close>
  "find_sub p [] = (if p = [] then Some 0 else None)"
| "find_sub p (c # cs) =
     (if startswith p (c # cs) then Some 0 else map_option Suc (find_sub p cs))"

definition replace_first :: "string \<Rightarrow> string \<Rightarrow> string \<Rightarrow> string" where
  \<comment> \<open>\<open>s.replace(old, new, 1)\<close>\<close>
  "replace_first old new s =
     (case find_sub old s of
        None \<Rightarrow> s
      | Some i \<Rightarrow> take i s @ new @ drop (i + length old) s)"

definition split_first :: "string \<Rightarrow> string \<Rightarrow> string list" where
  \<comment> \<open>\<open>s.split(sep, 1)\<close>: one part when \<open>sep\<close> does not occur, two parts otherwise\<close>
  "split_first sep s =
     (case find_sub sep s of
        None \<Rightarrow> [s]
      | Some i \<Rightarrow> [take i s, drop (i + length sep) s])"

fun remove_md :: "string \<Rightarrow> string" where
  \<comment> \<open>\<open>s.replace('.md', '')\<close>: every occurrence, left to right, without overlap\<close>
  "remove_md (a # b # c # cs) =
     (if a = CHR ''.'' \<and> b = CHR ''m'' \<and> c = CHR ''d'' then remove_md cs
      else a # remove_md (b # c # cs))"
| "remove_md cs = cs"

definition replace_char :: "char \<Rightarrow> char \<Rightarrow> string \<Rightarrow> string" where
  \<comment> \<open>\<open>s.replace(a, b)\<close> for one-character \<open>a\<close> and \<open>b\<close>\<close>
  "replace_char a b s = map (\<lambda>c. if c = a then b else c) s"

definition basename :: "string \<Rightarrow> string" where
  \<comment> \<open>\<open>os.path.basename\<close> (POSIX): what follows the last slash\<close>
  "basename p = rev (takeWhile (\<lambda>c. c \<noteq> CHR ''/'') (rev p))"

definition lower_char :: "char \<Rightarrow> char" where
  \<comment> \<open>\<open>str.lower\<close> on one code point below 256: A-Z and the capitals 0xC0-0xDE (without
      the multiplication sign 0xD7) move up by 32, every other code point stays.\<close>
  "lower_char c = (let n = (of_char c :: nat) in
     if (65 \<le> n \<and> n \<le> 90) \<or> (192 \<le> n \<and> n \<le> 222 \<and> n \<noteq> 215)
     then char_of (n + 32) else c)"

definition lower :: "string \<Rightarrow> string" where
  "lower s = map lower_char s"

section \<open>The Markdown splitter (extract\_data\_from\_markdown.py)\<close>

subsection \<open>The regular expressions\<close>

text \<open>
  Each pattern of the source is written as the matcher that Python's backtracking engine
  realises for it. A greedy \<open>\s*\<close> followed by a literal that starts with a non-space character
  can only succeed with the whole run of spaces, so it is \<open>dropWhile is_space\<close>; a lazy
  \<open>.*?\<close> under \<open>re.DOTALL\<close> followed by a pattern \<open>P\<close> stops at the first position where
  \<open>P\<close> matches.
\<close>

definition match_marker :: "string \<Rightarrow> string \<Rightarrow> nat option" where
  \<comment> \<open>\<open>##\s*name\<close> at the head of \<open>s\<close>: the number of characters matched\<close>
  "match_marker name s =
     (if startswith ''##'' s then
        (let r = dropWhile is_space (drop 2 s) in
         if startswith name r then Some (length s - length r + length name) else None)
      else None)"

fun lazy_until_end :: "string \<Rightarrow> nat option" where
  \<comment> \<open>\<open>.*?##\s*Metadata_End\<close> at the head of \<open>s\<close> (DOTALL): the number of characters matched\<close>
  "lazy_until_end [] = None"
| "lazy_until_end (c # cs) =
     (case match_marker ''Metadata_End'' (c # cs) of
        Some n \<Rightarrow> Some n
      | None \<Rightarrow> map_option Suc (lazy_until_end cs))"

definition match_block_here :: "string \<Rightarrow> nat option" where
  \<comment> \<open>\<open>##\s*Metadata_Start.*?##\s*Metadata_End\<close> at the head of \<open>s\<close>\<close>
  "match_block_here s =
     (case match_marker ''Metadata_Start'' s of
        None \<Rightarrow> None
      | Some n \<Rightarrow> map_option (\<lambda>m. n + m) (lazy_until_end (drop n s)))"

fun search_metadata_block :: "string \<Rightarrow> string option" where
  \<comment> \<open>\<open>re.search(r'(##\s*Metadata_Start.*?##\s*Metadata_End)', s, re.DOTALL)\<close>: group 1 of
      the leftmost match\<close>
  "search_metadata_block [] = None"
| "search_metadata_block (c # cs) =
     (case match_block_here (c # cs) of
        Some n \<Rightarrow> Some (take n (c # cs))
      | None \<Rightarrow> search_metadata_block cs)"

definition match_key_here :: "string \<Rightarrow> string \<Rightarrow> string option" where
  \<comment> \<open>\<open>##\s*key\s*(.*)\<close> at the head of \<open>s\<close>, where \<open>key\<close> is \<open>title:\<close> or \<open>slug:\<close>: group 1.
      Without DOTALL the dot stops at a newline; the greedy \<open>\s*\<close> before it does not.\<close>
  "match_key_here key s =
     (case match_marker key s of
        None \<Rightarrow> None
      | Some n \<Rightarrow>
          Some (takeWhile (\<lambda>c. c \<noteq> CHR ''\<newline>'') (dropWhile is_space (drop n s))))"

fun search_key :: "string \<Rightarrow> string \<Rightarrow> string option" where
  \<comment> \<open>\<open>re.search(r'##\s*key\s*(.*)', s)\<close>: group 1 of the leftmost match\<close>
  "search_key key [] = None"
| "search_key key (c # cs) =
     (case match_key_here key (c # cs) of
        Some g \<Rightarrow> Some g
      | None \<Rightarrow> search_key key cs)"

definition md_char :: "char \<Rightarrow> bool" where
  \<comment> \<open>the class \<open>[#*`\-]\<close>\<close>
  "md_char c = (c = CHR ''#'' \<or> c = CHR ''*'' \<or> c = CHR 0x60 \<or> c = CHR ''-'')"

fun md_line_from :: "bool \<Rightarrow> string \<Rightarrow> bool" where
  \<comment> \<open>the flag says whether the head of the string is at the start of a line\<close>
  "md_line_from at_start [] = False"
| "md_line_from at_start (c # cs) =
     ((at_start \<and> md_char c) \<or> md_line_from (c = CHR ''\<newline>'') cs)"

definition search_md_line :: "string \<Rightarrow> bool" where
  \<comment> \<open>\<open>re.search(r'^[#*`\-]', s, re.MULTILINE)\<close> finds a match: under MULTILINE \<open>^\<close> holds at
      the start of the string and right after every newline\<close>
  "search_md_line s = md_line_from True s"

subsection \<open>extract\_metadata\_and\_clean\_content\<close>

record metadata =
  md_title :: "string option"
  md_slug :: "string option"

definition annotation_content :: "string \<Rightarrow> string" where
  \<comment> \<open>lines 30-42: the branch taken when the text starts with three colons\<close>
  "annotation_content content_without_metadata =
     (case split_first '':::'' content_without_metadata of
        [part0, part1] \<Rightarrow>
          (let potential_content = strip part1 in
           if length potential_content > 100 \<or> search_md_line potential_content
           then potential_content
           else strip part0)
      | _ \<Rightarrow> content_without_metadata)"

definition extract_metadata_and_clean_content :: "string \<Rightarrow> metadata \<times> string" where
  "extract_metadata_and_clean_content full_doc_content =
     (case search_metadata_block full_doc_content of
        None \<Rightarrow> (\<lparr>md_title = None, md_slug = None\<rparr>, full_doc_content)
      | Some metadata_block \<Rightarrow>
          (let m = \<lparr>md_title = map_option strip (search_key ''title:'' metadata_block),
                    md_slug = map_option strip (search_key ''slug:'' metadata_block)\<rparr>;
               content_without_metadata = strip (replace_first metadata_block [] full_doc_content)
           in if startswith '':::'' content_without_metadata
              then (m, annotation_content content_without_metadata)
              else (m, content_without_metadata)))"

subsection \<open>Slug generation\<close>

definition alnum :: "char \<Rightarrow> bool" where
  \<comment> \<open>the class \<open>[a-z0-9]\<close>\<close>
  "alnum c = (let n = (of_char c :: nat) in (97 \<le> n \<and> n \<le> 122) \<or> (48 \<le> n \<and> n \<le> 57))"

fun sub_runs :: "bool \<Rightarrow> string \<Rightarrow> string" where
  \<comment> \<open>\<open>re.sub(r'[^a-z0-9]+', '-', s)\<close>: every maximal run of characters outside the class
      becomes one hyphen. The flag says whether the head continues a run already replaced.\<close>
  "sub_runs in_run [] = []"
| "sub_runs in_run (c # cs) =
     (if alnum c then c # sub_runs False cs
      else if in_run then sub_runs True cs
      else CHR ''-'' # sub_runs True cs)"

definition slugify :: "string \<Rightarrow> string" where
  \<comment> \<open>line 91: \<open>re.sub(r'[^a-z0-9]+', '-', s.lower()).strip('-')\<close>\<close>
  "slugify s = strip_chars (CHR ''-'') (sub_runs False (lower s))"

subsection \<open>extract\_data\_from\_markdown\<close>

record raw_doc =
  rd_title :: string
  rd_slug :: string
  rd_content :: string
  rd_filepath :: string

definition sep_after_md :: "string \<Rightarrow> nat option" where
  \<comment> \<open>\<open>\s*\n*-{3,}\<close> at the head of \<open>s\<close>: a hyphen is no space, so the hyphens must follow the
      whole run of spaces; the number of characters matched, all hyphens included\<close>
  "sep_after_md s =
     (let r = dropWhile is_space s; h = takeWhile (\<lambda>c. c = CHR ''-'') r in
      if 3 \<le> length h then Some (length s - length r + length h) else None)"

fun lazy_md :: "string \<Rightarrow> (nat \<times> nat) option" where
  \<comment> \<open>\<open>(.*?\.md)\s*\n*-{3,}\<close> at the head of \<open>s\<close> (DOTALL): the length of group 1 and the number
      of characters matched\<close>
  "lazy_md [] = None"
| "lazy_md (c # cs) =
     (case (if startswith ''.md'' (c # cs) then sep_after_md (drop 3 (c # cs)) else None) of
        Some m \<Rightarrow> Some (3, 3 + m)
      | None \<Rightarrow> map_option (\<lambda>(g, e). (Suc g, Suc e)) (lazy_md cs))"

fun lazy_body :: "string \<Rightarrow> nat" where
  \<comment> \<open>\<open>(.*?)(?=\n## Arquivo:|\Z)\<close> at the head of \<open>s\<close> (DOTALL): the length of group 2\<close>
  "lazy_body [] = 0"
| "lazy_body (c # cs) =
     (if startswith ''\<newline>## Arquivo:'' (c # cs) then 0 else Suc (lazy_body cs))"

definition match_doc_here :: "string \<Rightarrow> (string \<times> string \<times> nat) option" where
  \<comment> \<open>\<open>doc_pattern\<close> at the head of \<open>s\<close>: groups 1 and 2 and the length of the match\<close>
  "match_doc_here s =
     (if startswith ''## Arquivo: '' s then
        (let r0 = drop 12 s in
         case lazy_md r0 of
           None \<Rightarrow> None
         | Some (g, e) \<Rightarrow>
             (let r1 = drop e r0;
                  r2 = dropWhile is_space r1;
                  n = lazy_body r2
              in Some (take g r0, take n r2, 12 + e + (length r1 - length r2) + n)))
      else None)"

fun finditer :: "nat \<Rightarrow> string \<Rightarrow> (string \<times> string) list" where
  \<comment> \<open>\<open>doc_pattern.finditer(s)\<close>: the matches from left to right, without overlap. The counter
      is the number of characters still covered by the last match.\<close>
  "finditer skip [] = []"
| "finditer (Suc k) (c # cs) = finditer k cs"
| "finditer 0 (c # cs) =
     (case match_doc_here (c # cs) of
        None \<Rightarrow> finditer 0 cs
      | Some (g1, g2, len) \<Rightarrow> (g1, g2) # finditer (len - 1) cs)"

definition falsy :: "string option \<Rightarrow> bool" where
  \<comment> \<open>\<open>not x\<close> for a value that is \<open>None\<close> or a string\<close>
  "falsy x = (x = None \<or> x = Some [])"

definition process_match :: "string \<times> string \<Rightarrow> raw_doc option" where
  \<comment> \<open>the body of the loop over the matches (lines 72-104); \<open>None\<close> is \<open>continue\<close>\<close>
  "process_match m =
     (let file_path_relative = strip (fst m);
          raw_doc_content = strip (snd m)
      in if raw_doc_content = [] then None
         else
           (let (meta, cleaned_content) = extract_metadata_and_clean_content raw_doc_content;
                doc_title =
                  (if falsy (md_title meta)
                   then strip (replace_char (CHR ''_'') (CHR '' '')
                          (replace_char (CHR ''-'') (CHR '' '')
                             (remove_md (basename file_path_relative))))
                   else the (md_title meta));
                doc_slug =
                  (if falsy (md_slug meta)
                   then slugify (if doc_title \<noteq> [] then doc_title
                                 else remove_md (basename file_path_relative))
                   else the (md_slug meta))
            in if cleaned_content = [] then None
               else Some \<lparr>rd_title = doc_title, rd_slug = doc_slug,
                          rd_content = cleaned_content, rd_filepath = file_path_relative\<rparr>))"

definition extracted_docs :: "string \<Rightarrow> raw_doc list" where
  "extracted_docs full_content = List.map_filter process_match (finditer 0 full_content)"

definition extract_data_from_markdown :: "string option \<Rightarrow> raw_doc list option" where
  \<comment> \<open>The argument is the content of the Markdown file, \<open>None\<close> when the file does not exist.
      The result is the list written to the JSON file, \<open>None\<close> when the function returns
      \<open>False\<close> before writing.\<close>
  "extract_data_from_markdown file =
     (case file of
        None \<Rightarrow> None
      | Some full_content \<Rightarrow>
          (let docs = extracted_docs full_content in
           if docs = [] then None else Some docs))"

definition scenario_markdown :: string where
  "scenario_markdown =
     ''## Arquivo: a.md\<newline>---\<newline>## Metadata_Start\<newline>## title: A\<newline>## slug: a\<newline>## Metadata_End\<newline>Body A''"

section \<open>The web service (app.py)\<close>

subsection \<open>Data\<close>

text \<open>
  A document of the corpus is a dictionary loaded from JSON. A field is \<open>None\<close> when the key
  is absent; for \<open>embedding\<close>, \<open>None\<close> also stands for the JSON value \<open>null\<close>, which
  \<open>doc_info.get("embedding")\<close> does not tell apart from an absent key. The type \<open>'a\<close> is the
  type of the numbers in a vector.
\<close>

record 'a doc_info =
  title :: "string option"
  slug :: "string option"
  content :: "string option"
  filepath :: "string option"
  embedding :: "'a list option"

datatype exn =
    TypeError string
  | KeyError string
  | AttributeError string
  | ExternalError string

fun str_exn :: "exn \<Rightarrow> string" where
  \<comment> \<open>\<open>str(e)\<close>; for a \<open>KeyError\<close> the key in quotes\<close>
  "str_exn (TypeError m) = m"
| "str_exn (KeyError k) = [CHR 0x27] @ k @ [CHR 0x27]"
| "str_exn (AttributeError m) = m"
| "str_exn (ExternalError m) = m"

datatype 'a ndarray = Scalar0 | Array1 "'a list"

definition np_array :: "'a list option \<Rightarrow> 'a ndarray" where
  \<comment> \<open>\<open>np.array(x)\<close>: of \<open>None\<close> an array of dimension 0 holding the object, of a list of
      numbers an array of dimension 1. The result is never \<open>None\<close>.\<close>
  "np_array x = (case x of None \<Rightarrow> Scalar0 | Some v \<Rightarrow> Array1 v)"

definition np_len :: "'a ndarray \<Rightarrow> exn + nat" where
  \<comment> \<open>\<open>len\<close> of an array: an array of dimension 0 has none\<close>
  "np_len a = (case a of
       Scalar0 \<Rightarrow> Inl (TypeError ''len() of unsized object'')
     | Array1 v \<Rightarrow> Inr (length v))"

definition np_data :: "'a ndarray \<Rightarrow> 'a list" where
  "np_data a = (case a of Scalar0 \<Rightarrow> [] | Array1 v \<Rightarrow> v)"

datatype warning = SimilarityWarning string | InvalidEmbeddingWarning string

datatype event = EmbedCall string | GenerateCall string real

record info =
  info_title :: string
  info_slug :: string
  info_relevance :: string

record coverage =
  response_text :: string
  relevant_docs_info :: "info list"

record response =
  status :: nat
  body_error :: "string option"
  body_response_text :: "string option"
  body_relevant_docs_info :: "info list option"

datatype json =
    JNull
  | JBool bool
  | JNum int
  | JStr string
  | JArr "json list"
  | JObj "(string \<times> json) list"

subsection \<open>get\_relevant\_documents\<close>

text \<open>
  \<open>scipy.spatial.distance.cosine\<close> is a parameter: \<open>cosine u v\<close> is the distance, or \<open>None\<close>
  when the call raises \<open>ValueError\<close>. The type \<open>'s\<close> of the scores is any linear order with
  a one and a subtraction. A floating-point NaN, which the distance of a zero vector is and
  which compares false with everything, is outside the model: on such scores \<open>list.sort\<close>
  need not leave the matches in descending order, and nothing below speaks of them.
\<close>

definition get_or :: "string \<Rightarrow> string option \<Rightarrow> string" where
  \<comment> \<open>\<open>d.get(key, default)\<close>, written \<open>get_or default (key d)\<close>\<close>
  "get_or dflt x = (case x of None \<Rightarrow> dflt | Some v \<Rightarrow> v)"

fun scan_docs ::
  "('a list \<Rightarrow> 'a list \<Rightarrow> 's option) \<Rightarrow> 'a list \<Rightarrow> 'a doc_info list \<Rightarrow>
   exn + ((('s::{linorder,one,minus}) \<times> 'a doc_info) list \<times> warning list)" where
  \<comment> \<open>the loop of lines 78-88: the list \<open>similarities\<close> and the warnings logged, in the order
      of the corpus; the loop stops at the first exception\<close>
  "scan_docs cosine query_embedding [] = Inr ([], [])"
| "scan_docs cosine query_embedding (doc # docs) =
     (let doc_embedding = np_array (embedding doc) in
      case np_len doc_embedding of
        Inl e \<Rightarrow> Inl e
      | Inr n \<Rightarrow>
          (case scan_docs cosine query_embedding docs of
             Inl e \<Rightarrow> Inl e
           | Inr (similarities, warnings) \<Rightarrow>
               if 0 < n \<and> length query_embedding = n then
                 (case cosine query_embedding (np_data doc_embedding) of
                    Some c \<Rightarrow> Inr ((1 - c, doc) # similarities, warnings)
                  | None \<Rightarrow>
                      Inr (similarities,
                           SimilarityWarning (get_or ''N/A'' (title doc)) # warnings))
               else
                 Inr (similarities,
                      InvalidEmbeddingWarning (get_or ''N/A'' (title doc)) # warnings)))"

definition sort_desc :: "('b \<Rightarrow> 's::linorder) \<Rightarrow> 'b list \<Rightarrow> 'b list" where
  \<comment> \<open>\<open>xs.sort(key=f, reverse=True)\<close>: stable, elements with equal keys keep their order\<close>
  "sort_desc f xs = rev (sort_key f (rev xs))"

definition slice_to :: "int \<Rightarrow> 'b list \<Rightarrow> 'b list" where
  \<comment> \<open>\<open>xs[:k]\<close>: a negative \<open>k\<close> counts from the end\<close>
  "slice_to k xs =
     (if 0 \<le> k then take (nat k) xs else take (nat (int (length xs) + k)) xs)"

definition get_relevant_documents ::
  "('a list \<Rightarrow> 'a list \<Rightarrow> 's option) \<Rightarrow> 'a doc_info list \<Rightarrow> 'a list \<Rightarrow> int \<Rightarrow>
   exn + ((('s::{linorder,one,minus}) \<times> 'a doc_info) list \<times> warning list)" where
  \<comment> \<open>The second argument is the global \<open>PROCESSED_DOCS\<close>. The result is the list returned
      together with the warnings logged, or the exception raised.\<close>
  "get_relevant_documents cosine PROCESSED_DOCS query_embedding top_k =
     (case scan_docs cosine query_embedding PROCESSED_DOCS of
        Inl e \<Rightarrow> Inl e
      | Inr (similarities, warnings) \<Rightarrow>
          Inr (slice_to top_k (sort_desc fst similarities), warnings))"

definition top_k_default :: int where
  "top_k_default = 5"

subsection \<open>analyze\_coverage\_with\_context\<close>

definition msg_not_loaded :: string where
  "msg_not_loaded =
     ''A documenta'' @ [CHR 0xE7] @ [CHR 0xE3] @ ''o n'' @ [CHR 0xE3] @
     ''o foi carregada. Por favor, verifique a inicializa'' @ [CHR 0xE7] @ [CHR 0xE3] @
     ''o da aplica'' @ [CHR 0xE7] @ [CHR 0xE3] @ ''o.''"

definition prompt_for_suggestions :: "string \<Rightarrow> string" where
  "prompt_for_suggestions query =
     ''\<newline>'' @ ''        A documenta'' @ [CHR 0xE7] @ [CHR 0xE3] @ ''o atual n'' @
     [CHR 0xE3] @ ''o cont'' @ [CHR 0xE9] @ ''m informa'' @ [CHR 0xE7] @ [CHR 0xF5] @
     ''es diretas sobre o t'' @ [CHR 0xF3] @ ''pico: '' @ [CHR 0x22] @
     query @
     [CHR 0x22] @ ''.\<newline>'' @
     ''        Com base no seu conhecimento geral sobre documenta'' @ [CHR 0xE7] @ [CHR 0xE3] @
     ''o de produtos de seguran'' @ [CHR 0xE7] @ ''a da informa'' @ [CHR 0xE7] @ [CHR 0xE3] @
     ''o,\<newline>'' @ ''        por favor, sugira **5 poss'' @ [CHR 0xED] @ ''veis t'' @
     [CHR 0xF3] @ ''picos de documentos ou se'' @ [CHR 0xE7] @ [CHR 0xF5] @
     ''es que poderiam ser criadas** para cobrir este assunto.\<newline>'' @
     ''        Formate as sugest'' @ [CHR 0xF5] @
     ''es como uma lista numerada simples.\<newline>'' @ ''\<newline>'' @
     ''        **Sugest'' @ [CHR 0xF5] @ ''es:**\<newline>'' @ ''        ''"

definition prompt_for_refinement :: "string \<Rightarrow> string \<Rightarrow> string" where
  "prompt_for_refinement query context_str =
     ''\<newline>'' @ ''        A pergunta/t'' @ [CHR 0xF3] @ ''pico para an'' @ [CHR 0xE1] @
     ''lise de cobertura '' @ [CHR 0xE9] @ '': '' @ [CHR 0x22] @
     query @
     [CHR 0x22] @ ''.\<newline>'' @ ''        Com base no contexto fornecido da documenta'' @
     [CHR 0xE7] @ [CHR 0xE3] @
     ''o existente abaixo, e no seu conhecimento geral sobre documenta'' @ [CHR 0xE7] @
     [CHR 0xE3] @ ''o de produtos de seguran'' @ [CHR 0xE7] @ ''a da informa'' @ [CHR 0xE7] @
     [CHR 0xE3] @ ''o,\<newline>'' @
     ''        identifique **3 a 5 pontos de melhoria ou expans'' @ [CHR 0xE3] @
     ''o** na documenta'' @ [CHR 0xE7] @ [CHR 0xE3] @ ''o atual relacionados a este t'' @
     [CHR 0xF3] @ ''pico.\<newline>'' @ ''        Formate cada sugest'' @ [CHR 0xE3] @
     ''o como um item de lista numerada. Para cada sugest'' @ [CHR 0xE3] @
     ''o, inclua um **t'' @ [CHR 0xED] @ ''tulo sugerido** e um **conte'' @ [CHR 0xFA] @
     ''do sugerido** em sub-itens com asterisco. Se houver manuais ou documentos '' @
     ''mencionados, sugira adicionar links diretos.\<newline>'' @ ''\<newline>'' @
     ''        **Contexto de Documenta'' @ [CHR 0xE7] @ [CHR 0xE3] @ ''o Relevante (conte'' @
     [CHR 0xFA] @ ''do completo dos documentos com t'' @ [CHR 0xED] @
     ''tulo, slug e caminho do arquivo):**\<newline>'' @ ''        '' @
     context_str @
     ''\<newline>'' @ ''\<newline>'' @ ''        **Sugest'' @ [CHR 0xF5] @
     ''es de Melhoria de Cobertura para '' @ [CHR 0x27] @
     query @
     [CHR 0x27] @ '':**\<newline>'' @ ''        ''"

definition not_found_prefix :: "string \<Rightarrow> string" where
  \<comment> \<open>the common start of the two response texts of lines 120 and 123\<close>
  "not_found_prefix query =
     ''N'' @ [CHR 0xE3] @ ''o foi poss'' @ [CHR 0xED] @ ''vel encontrar informa'' @
     [CHR 0xE7] @ [CHR 0xF5] @ ''es claras na documenta'' @ [CHR 0xE7] @ [CHR 0xE3] @
     ''o sobre '' @ [CHR 0x27] @
     query @ [CHR 0x27] @ ''. ''"

definition not_found_intro :: string where
  "not_found_intro =
     ''\<newline>'' @ ''\<newline>'' @ ''**Poss'' @ [CHR 0xED] @ ''veis t'' @ [CHR 0xF3] @
     ''picos para cobrir esta lacuna:**\<newline>''"

definition not_found_error :: string where
  "not_found_error = ''Erro ao gerar sugest'' @ [CHR 0xF5] @ ''es.''"

definition partly_covered_prefix :: "string \<Rightarrow> string" where
  \<comment> \<open>the common start of the two response texts of lines 153 and 156\<close>
  "partly_covered_prefix query =
     ''A documenta'' @ [CHR 0xE7] @ [CHR 0xE3] @ ''o existente j'' @ [CHR 0xE1] @
     '' aborda o t'' @ [CHR 0xF3] @ ''pico '' @ [CHR 0x27] @
     query @ [CHR 0x27] @ '' em parte. ''"

definition partly_covered_intro :: string where
  "partly_covered_intro =
     ''Para uma cobertura mais abrangente, considere as seguintes melhorias:\<newline>'' @
     ''\<newline>''"

definition partly_covered_error :: string where
  "partly_covered_error = ''Erro ao analisar melhorias.''"

fun build_context ::
  "('s \<Rightarrow> string) \<Rightarrow> ('s \<times> 'a doc_info) list \<Rightarrow> exn + (string \<times> info list)" where
  \<comment> \<open>the loop of lines 126-133: \<open>context_str\<close> and \<open>relevant_docs_info\<close>. The parameter
      \<open>percent\<close> is the float formatting \<open>f"{sim * 100:.2f}%"\<close>; \<open>doc['title']\<close> and
      \<open>doc['content']\<close> raise \<open>KeyError\<close> on an absent key.\<close>
  "build_context percent [] = Inr ([], [])"
| "build_context percent ((sim, doc) # rest) =
     (let similarity_percent = percent sim in
      case title doc of
        None \<Rightarrow> Inl (KeyError ''title'')
      | Some t \<Rightarrow>
          (case content doc of
             None \<Rightarrow> Inl (KeyError ''content'')
           | Some c \<Rightarrow>
               (case build_context percent rest of
                  Inl e \<Rightarrow> Inl e
                | Inr (context_str, infos) \<Rightarrow>
                    Inr (''T'' @ [CHR 0xED] @ ''tulo: '' @ t @
                         ''\<newline>'' @ ''Slug: '' @ get_or ''N/A'' (slug doc) @
                         ''\<newline>'' @ ''Caminho do Arquivo: '' @
                         get_or ''N/A'' (filepath doc) @
                         ''\<newline>'' @ ''Conte'' @ [CHR 0xFA] @ ''do: '' @ c @
                         ''\<newline>'' @ ''\<newline>'' @ context_str,
                         \<lparr>info_title = t, info_slug = get_or ''N/A'' (slug doc),
                          info_relevance = similarity_percent\<rparr> # infos))))"

definition analyze_coverage_with_context ::
  "'a doc_info list \<Rightarrow> (string \<Rightarrow> real \<Rightarrow> exn + string) \<Rightarrow> ('s \<Rightarrow> string) \<Rightarrow>
   string \<Rightarrow> ('s \<times> 'a doc_info) list \<Rightarrow> (exn + coverage) \<times> event list" where
  \<comment> \<open>The first argument is the global \<open>PROCESSED_DOCS\<close>; \<open>generate prompt temperature\<close> is
      the text of the generative model's answer, or the exception raised inside the
      \<open>try\<close>. The result comes with the calls made to the external service.\<close>
  "analyze_coverage_with_context PROCESSED_DOCS generate percent query
       relevant_docs_with_similarity =
     (if PROCESSED_DOCS = [] then
        (Inr \<lparr>response_text = msg_not_loaded, relevant_docs_info = []\<rparr>, [])
      else if relevant_docs_with_similarity = [] then
        (case generate (prompt_for_suggestions query) (7 / 10) of
           Inr text \<Rightarrow>
             (Inr \<lparr>response_text = not_found_prefix query @ not_found_intro @ text,
                   relevant_docs_info = []\<rparr>,
              [GenerateCall (prompt_for_suggestions query) (7 / 10)])
         | Inl e \<Rightarrow>
             (Inr \<lparr>response_text = not_found_prefix query @ not_found_error,
                   relevant_docs_info = []\<rparr>,
              [GenerateCall (prompt_for_suggestions query) (7 / 10)]))
      else
        (case build_context percent relevant_docs_with_similarity of
           Inl e \<Rightarrow> (Inl e, [])
         | Inr (context_str, infos) \<Rightarrow>
             (case generate (prompt_for_refinement query context_str) (4 / 10) of
                Inr text \<Rightarrow>
                  (Inr \<lparr>response_text =
                          partly_covered_prefix query @ partly_covered_intro @ text,
                        relevant_docs_info = infos\<rparr>,
                   [GenerateCall (prompt_for_refinement query context_str) (4 / 10)])
              | Inl e \<Rightarrow>
                  (Inr \<lparr>response_text = partly_covered_prefix query @ partly_covered_error,
                        relevant_docs_info = []\<rparr>,
                   [GenerateCall (prompt_for_refinement query context_str) (4 / 10)]))))"

subsection \<open>The route /analyze\_coverage\<close>

definition msg_no_query :: string where
  "msg_no_query =
     ''Nenhuma informa'' @ [CHR 0xE7] @ [CHR 0xE3] @ ''o/t'' @ [CHR 0xF3] @
     ''pico fornecido para an'' @ [CHR 0xE1] @ ''lise de cobertura.''"

definition msg_no_embedding :: string where
  "msg_no_embedding =
     ''N'' @ [CHR 0xE3] @ ''o foi poss'' @ [CHR 0xED] @
     ''vel gerar o embedding para a consulta.''"

definition msg_internal :: string where
  "msg_internal = ''Erro interno ao analisar cobertura: ''"

definition generate_embedding :: "(string \<Rightarrow> exn + 'a list) \<Rightarrow> string \<Rightarrow> 'a list option" where
  \<comment> \<open>\<open>embed_content text\<close> is the vector \<open>response['embedding']\<close>, or the exception raised
      inside the \<open>try\<close>\<close>
  "generate_embedding embed_content text =
     (case embed_content text of Inr v \<Rightarrow> Some v | Inl e \<Rightarrow> None)"

definition dict_get :: "json \<Rightarrow> string \<Rightarrow> json \<Rightarrow> exn + json" where
  \<comment> \<open>\<open>data.get(key, default)\<close>: only a dictionary has the method\<close>
  "dict_get data key dflt =
     (case data of
        JObj items \<Rightarrow> Inr (case map_of items key of None \<Rightarrow> dflt | Some v \<Rightarrow> v)
      | _ \<Rightarrow> Inl (AttributeError ''get''))"

definition json_strip :: "json \<Rightarrow> exn + string" where
  \<comment> \<open>\<open>v.strip()\<close>: only a string has the method\<close>
  "json_strip v = (case v of JStr s \<Rightarrow> Inr (strip s) | _ \<Rightarrow> Inl (AttributeError ''strip''))"

definition internal_error :: "exn \<Rightarrow> response" where
  \<comment> \<open>the \<open>except Exception\<close> of lines 189-191\<close>
  "internal_error e =
     \<lparr>status = 500, body_error = Some (msg_internal @ str_exn e),
      body_response_text = Some [], body_relevant_docs_info = Some []\<rparr>"

definition handle_analyze_coverage ::
  "'a doc_info list \<Rightarrow> (string \<Rightarrow> exn + 'a list) \<Rightarrow> (string \<Rightarrow> real \<Rightarrow> exn + string) \<Rightarrow>
   ('a list \<Rightarrow> 'a list \<Rightarrow> ('s::{linorder,one,minus}) option) \<Rightarrow> ('s \<Rightarrow> string) \<Rightarrow>
   json \<Rightarrow> (exn + response) \<times> event list" where
  \<comment> \<open>The last argument is the value returned by \<open>request.get_json()\<close>. The result is the
      response, or the exception that leaves the function, with the calls made to the
      external service. The first two statements are outside the \<open>try\<close>.\<close>
  "handle_analyze_coverage PROCESSED_DOCS embed_content generate cosine percent data =
     (case dict_get data ''query'' (JStr []) of
        Inl e \<Rightarrow> (Inl e, [])
      | Inr v \<Rightarrow>
          (case json_strip v of
             Inl e \<Rightarrow> (Inl e, [])
           | Inr query \<Rightarrow>
               if query = [] then
                 (Inr \<lparr>status = 400, body_error = Some msg_no_query,
                       body_response_text = None, body_relevant_docs_info = None\<rparr>, [])
               else
                 (case generate_embedding embed_content query of
                    None \<Rightarrow>
                      (Inr \<lparr>status = 500, body_error = Some msg_no_embedding,
                            body_response_text = None, body_relevant_docs_info = None\<rparr>,
                       [EmbedCall query])
                  | Some query_embedding \<Rightarrow>
                      (case get_relevant_documents cosine PROCESSED_DOCS query_embedding 5 of
                         Inl e \<Rightarrow> (Inr (internal_error e), [EmbedCall query])
                       | Inr (relevant_docs_with_similarity, warnings) \<Rightarrow>
                           (case analyze_coverage_with_context PROCESSED_DOCS generate percent
                                   query relevant_docs_with_similarity of
                              (Inl e, calls) \<Rightarrow>
                                (Inr (internal_error e), EmbedCall query # calls)
                            | (Inr coverage_result, calls) \<Rightarrow>
                                (Inr \<lparr>status = 200, body_error = None,
                                      body_response_text =
                                        Some (response_text coverage_result),
                                      body_relevant_docs_info =
                                        Some (relevant_docs_info coverage_result)\<rparr>,
                                 EmbedCall query # calls))))))"

section \<open>The embedding pipeline (generate-embedings.py)\<close>

text \<open>
  The external embedding service is a parameter: \<open>service n text\<close> is the outcome of the
  call number \<open>n\<close> (counted from 0 over the whole run) of \<open>genai.embed_content\<close> on \<open>text\<close>,
  either the vector \<open>response['embedding']\<close> or the exception raised inside the \<open>try\<close>.
  The state threaded through the run counts the calls made and records, in order, the
  calls and the arguments of \<open>time.sleep\<close> (in seconds).
\<close>

datatype step = EmbedRequest string | Sleep nat

record world =
  ncalls :: nat
  steps :: "step list"

definition retries :: nat where
  "retries = 3"

fun attempt_loop ::
  "(nat \<Rightarrow> string \<Rightarrow> exn + 'a list) \<Rightarrow> string \<Rightarrow> nat list \<Rightarrow> world \<Rightarrow>
   'a list option \<times> world" where
  \<comment> \<open>the loop \<open>for attempt in range(retries)\<close> over the attempts that remain; the empty
      list is the \<open>return None\<close> after the loop\<close>
  "attempt_loop service text_content [] w = (None, w)"
| "attempt_loop service text_content (attempt # rest) w =
     (let w1 = w\<lparr>ncalls := Suc (ncalls w),
                 steps := steps w @ [EmbedRequest text_content]\<rparr> in
      case service (ncalls w) text_content of
        Inr v \<Rightarrow> (Some v, w1)
      | Inl e \<Rightarrow>
          if attempt < retries - 1
          then attempt_loop service text_content rest
                 (w1\<lparr>steps := steps w1 @ [Sleep (2 ^ attempt)]\<rparr>)
          else (None, w1))"

definition generate_embedding_with_retry ::
  "(nat \<Rightarrow> string \<Rightarrow> exn + 'a list) \<Rightarrow> string \<Rightarrow> world \<Rightarrow> 'a list option \<times> world" where
  "generate_embedding_with_retry service text_content w =
     attempt_loop service text_content [0..<retries] w"

text \<open>
  \<open>clean_text_for_embedding\<close> is a pure function from strings to strings (three \<open>re.sub\<close>
  calls and \<open>strip\<close>). The loop below depends on it only through the text it hands to the
  service and through whether that text is blank, so it is the parameter \<open>clean\<close>.
\<close>

definition msg_unknown_title :: string where
  "msg_unknown_title = ''T'' @ [CHR 0xED] @ ''tulo Desconhecido''"

definition embedding_text :: "(string \<Rightarrow> string) \<Rightarrow> 'a doc_info \<Rightarrow> string" where
  \<comment> \<open>lines 72-79\<close>
  "embedding_text clean doc_data =
     (let doc_title = get_or msg_unknown_title (title doc_data);
          doc_content = get_or [] (content doc_data);
          embedding_text_raw = doc_title @ ''. '' @ take 1024 doc_content
      in clean embedding_text_raw)"

definition process_doc ::
  "(string \<Rightarrow> string) \<Rightarrow> (nat \<Rightarrow> string \<Rightarrow> exn + 'a list) \<Rightarrow> 'a doc_info \<Rightarrow> world \<Rightarrow>
   'a doc_info \<times> world" where
  \<comment> \<open>the body of the loop over \<open>raw_docs\<close> (lines 72-97): the dictionary appended to
      \<open>processed_docs\<close>\<close>
  "process_doc clean service doc_data w =
     (if strip (embedding_text clean doc_data) = [] then
        (doc_data\<lparr>embedding := None\<rparr>, w)
      else
        (case generate_embedding_with_retry service (embedding_text clean doc_data) w of
           (Some doc_embedding, w') \<Rightarrow> (doc_data\<lparr>embedding := Some doc_embedding\<rparr>, w')
         | (None, w') \<Rightarrow> (doc_data\<lparr>embedding := None\<rparr>, w')))"

fun process_docs ::
  "(string \<Rightarrow> string) \<Rightarrow> (nat \<Rightarrow> string \<Rightarrow> exn + 'a list) \<Rightarrow> 'a doc_info list \<Rightarrow> world \<Rightarrow>
   'a doc_info list \<times> world" where
  "process_docs clean service [] w = ([], w)"
| "process_docs clean service (doc_data # raw_docs) w =
     (let (d, w1) = process_doc clean service doc_data w;
          (ds, w2) = process_docs clean service raw_docs w1
      in (d # ds, w2))"

definition generate_embeddings_for_docs ::
  "(string \<Rightarrow> string) \<Rightarrow> (nat \<Rightarrow> string \<Rightarrow> exn + 'a list) \<Rightarrow> 'a doc_info list option \<Rightarrow>
   'a doc_info list option \<times> world" where
  \<comment> \<open>The argument is the list loaded from the input file, \<open>None\<close> when the file is missing
      or is not JSON. The result is the list written to the output file, \<open>None\<close> when the
      function returns \<open>False\<close> before writing.\<close>
  "generate_embeddings_for_docs clean service input =
     (case input of
        None \<Rightarrow> (None, \<lparr>ncalls = 0, steps = []\<rparr>)
      | Some raw_docs \<Rightarrow>
          (let (processed_docs, w) =
                 process_docs clean service raw_docs \<lparr>ncalls = 0, steps = []\<rparr>
           in if processed_docs = [] then (None, w) else (Some processed_docs, w)))"

section \<open>Auxiliary notions and sample inputs\<close>

fun canonical :: "bool \<Rightarrow> string \<Rightarrow> bool" where
  \<comment> \<open>the strings over \<open>[a-z0-9-]\<close> without two hyphens in a row; the flag says whether the
      character before the head is a hyphen\<close>
  "canonical prev_hyphen [] = True"
| "canonical prev_hyphen (c # cs) =
     (if alnum c then canonical False cs
      else c = CHR ''-'' \<and> \<not> prev_hyphen \<and> canonical True cs)"

definition valid_embedding :: "'a list \<Rightarrow> 'a doc_info \<Rightarrow> bool" where
  \<comment> \<open>the embedding-validity filter: not null, not empty, of the dimension of the query\<close>
  "valid_embedding query_embedding doc =
     (case embedding doc of
        None \<Rightarrow> False
      | Some v \<Rightarrow> 0 < length v \<and> length query_embedding = length v)"

definition candidate ::
  "('a list \<Rightarrow> 'a list \<Rightarrow> 's option) \<Rightarrow> 'a list \<Rightarrow> 'a doc_info \<Rightarrow>
   (('s::{linorder,one,minus}) \<times> 'a doc_info) option" where
  \<comment> \<open>a document that passes the filter, with its similarity\<close>
  "candidate cosine query_embedding doc =
     (case embedding doc of
        None \<Rightarrow> None
      | Some v \<Rightarrow>
          if valid_embedding query_embedding doc
          then map_option (\<lambda>c. (1 - c, doc)) (cosine query_embedding v)
          else None)"

definition candidates ::
  "('a list \<Rightarrow> 'a list \<Rightarrow> 's option) \<Rightarrow> 'a list \<Rightarrow> 'a doc_info list \<Rightarrow>
   (('s::{linorder,one,minus}) \<times> 'a doc_info) list" where
  \<comment> \<open>the candidate set, in the order of the corpus\<close>
  "candidates cosine query_embedding docs =
     List.map_filter (candidate cosine query_embedding) docs"

definition sample_doc :: "string \<Rightarrow> int list option \<Rightarrow> int doc_info" where
  "sample_doc name e =
     \<lparr>title = Some name, slug = Some name, content = Some ''PAM overview'',
      filepath = Some (name @ ''.md''), embedding = e\<rparr>"

definition sample_cosine :: "int list \<Rightarrow> int list \<Rightarrow> int option" where
  \<comment> \<open>a stand-in for the distance with integer values: one minus the dot product\<close>
  "sample_cosine u v = Some (1 - sum_list (map2 (*) u v))"

definition sample_percent :: "int \<Rightarrow> string" where
  "sample_percent s = (if s = 1 then ''100.00%'' else ''200.00%'')"

definition sample_corpus :: "int doc_info list" where
  "sample_corpus =
     [sample_doc ''a'' (Some [1]), sample_doc ''b'' (Some [2]), sample_doc ''c'' (Some [1]),
      sample_doc ''d'' (Some []), sample_doc ''e'' (Some [1, 2])]"

definition mismatched_corpus :: "int doc_info list" where
  "mismatched_corpus = [sample_doc ''d'' (Some []), sample_doc ''e'' (Some [1, 2])]"

definition ok_embed :: "string \<Rightarrow> exn + int list" where
  "ok_embed text = Inr [1]"

definition failing_embed :: "string \<Rightarrow> exn + int list" where
  "failing_embed text = Inl (ExternalError ''503 service unavailable'')"

definition ok_generate :: "string \<Rightarrow> real \<Rightarrow> exn + string" where
  "ok_generate prompt temperature = Inr ''1. Topic''"

definition failing_generate :: "string \<Rightarrow> real \<Rightarrow> exn + string" where
  "failing_generate prompt temperature = Inl (ExternalError ''503 service unavailable'')"

definition down_service :: "nat \<Rightarrow> string \<Rightarrow> exn + int list" where
  "down_service n text = Inl (ExternalError ''503 service unavailable'')"

definition annotated_body :: string where
  "annotated_body = ''## Metadata_Start\<newline>## title: T\<newline>## Metadata_End\<newline>::: # Heading''"

definition exhausted :: "string \<Rightarrow> world \<Rightarrow> world" where
  \<comment> \<open>the state after three failed attempts on a text: three calls, a sleep of one second
      after the first and of two seconds after the second\<close>
  "exhausted text_content w =
     w\<lparr>ncalls := ncalls w + 3,
       steps := steps w @ [EmbedRequest text_content, Sleep 1, EmbedRequest text_content,
                           Sleep 2, EmbedRequest text_content]\<rparr>"

definition pam_request :: json where
  "pam_request = JObj [(''query'', JStr '' pam '')]"

definition note_body :: string where
  "note_body = ''## Metadata_Start\<newline>## title: T\<newline>## Metadata_End\<newline>::: internal note''"

definition bare_body :: string where
  "bare_body = '':::(Internal)\<newline># Real content''"

definition null_corpus :: "int doc_info list" where
  \<comment> \<open>two records as the pipeline writes them when the embedding fails or is skipped\<close>
  "null_corpus = [sample_doc ''a'' None, sample_doc ''b'' None]"

definition flaky_service :: "nat \<Rightarrow> nat \<Rightarrow> string \<Rightarrow> exn + int list" where
  \<comment> \<open>a service whose first \<open>m\<close> calls fail and whose later calls answer with the call number\<close>
  "flaky_service m n text =
     (if n < m then Inl (ExternalError ''503 service unavailable'') else Inr [int n])"

fun retry_outcome ::
  "(nat \<Rightarrow> string \<Rightarrow> exn + 'a list) \<Rightarrow> string \<Rightarrow> nat \<Rightarrow> nat \<Rightarrow> 'a list option \<times> nat" where
  \<comment> \<open>What a bounded retry is to yield, in the words of the specification:
      \<open>retry_outcome service text n k\<close> is the answer of the first call that succeeds among
      the calls number \<open>n\<close>, \<open>n + 1\<close>, ... (at most \<open>k\<close> of them), or \<open>None\<close> when they all
      fail, with the number of calls made.\<close>
  "retry_outcome service text n 0 = (None, 0)"
| "retry_outcome service text n (Suc k) =
     (case service n text of
        Inr v \<Rightarrow> (Some v, 1)
      | Inl e \<Rightarrow> (fst (retry_outcome service text (Suc n) k),
                  Suc (snd (retry_outcome service text (Suc n) k))))"

fun expected_docs ::
  "(string \<Rightarrow> string) \<Rightarrow> (nat \<Rightarrow> string \<Rightarrow> exn + 'a list) \<Rightarrow> 'a doc_info list \<Rightarrow> nat \<Rightarrow>
   'a doc_info list" where
  \<comment> \<open>What the pipeline is to emit, in the words of the specification, when \<open>n\<close> calls have
      been made so far: each record with its embedding set and nothing else changed; null
      without any call when the cleaned text is blank (skip), else the vector of the first
      of three attempts that succeeds, null when all three fail.\<close>
  "expected_docs clean service [] n = []"
| "expected_docs clean service (d # ds) n =
     (if strip (embedding_text clean d) = []
      then d\<lparr>embedding := None\<rparr> # expected_docs clean service ds n
      else d\<lparr>embedding := fst (retry_outcome service (embedding_text clean d) n 3)\<rparr> #
           expected_docs clean service ds
             (n + snd (retry_outcome service (embedding_text clean d) n 3)))"

definition sample_clean :: "string \<Rightarrow> string" where
  \<comment> \<open>a stand-in for the cleaning that leaves nothing of a text starting with \<open>#\<close>\<close>
  "sample_clean s = (if startswith ''#'' s then [] else s)"

section \<open>Properties of the splitter\<close>

subsection \<open>Slugs\<close>

lemma hyphen_not_alnum: "\<not> alnum (CHR ''-'')"
  by (simp add: alnum_def)

lemma canonical_sub_runs: "canonical b (sub_runs b s)"
  by (induction s arbitrary: b) (auto simp: hyphen_not_alnum)

lemma sub_runs_canonical: "canonical b s \<Longrightarrow> sub_runs b s = s"
proof (induction s arbitrary: b)
  case Nil
  then show ?case by simp
next
  case (Cons c cs)
  show ?case
  proof (cases "alnum c")
    case True
    with Cons.prems have "canonical False cs" by simp
    then have "sub_runs False cs = cs" by (rule Cons.IH)
    with True show ?thesis by simp
  next
    case False
    with Cons.prems have c: "c = CHR ''-''" "\<not> b" and "canonical True cs" by simp_all
    then have "sub_runs True cs = cs" using Cons.IH by blast
    with False c show ?thesis by simp
  qed
qed

lemma canonical_dropWhile:
  "canonical b s \<Longrightarrow> canonical b' (dropWhile (\<lambda>x. x = CHR ''-'') s)"
proof (induction s arbitrary: b)
  case Nil
  then show ?case by simp
next
  case (Cons c cs)
  show ?case
  proof (cases "alnum c")
    case True
    then have "c \<noteq> CHR ''-''" using hyphen_not_alnum by blast
    with True Cons.prems show ?thesis by simp
  next
    case False
    with Cons.prems have c: "c = CHR ''-''" and "canonical True cs" by simp_all
    then have "canonical b' (dropWhile (\<lambda>x. x = CHR ''-'') cs)" using Cons.IH by blast
    with c show ?thesis by simp
  qed
qed

lemma canonical_take: "canonical b s \<Longrightarrow> canonical b (take n s)"
proof (induction s arbitrary: b n)
  case Nil
  then show ?case by simp
next
  case (Cons c cs)
  show ?case
  proof (cases n)
    case 0
    then show ?thesis by simp
  next
    case (Suc m)
    show ?thesis
    proof (cases "alnum c")
      case True
      with Cons.prems have "canonical False cs" by simp
      then have "canonical False (take m cs)" by (rule Cons.IH)
      with True Suc show ?thesis by simp
    next
      case False
      with Cons.prems have c: "c = CHR ''-''" "\<not> b" and "canonical True cs" by simp_all
      then have "canonical True (take m cs)" using Cons.IH by blast
      with False c Suc show ?thesis by simp
    qed
  qed
qed

lemma rev_dropWhile_rev: "rev (dropWhile P (rev s)) = take (length s - length (takeWhile P (rev s))) s"
proof -
  have "dropWhile P (rev s) = drop (length (takeWhile P (rev s))) (rev s)"
    by (rule dropWhile_eq_drop)
  then have "rev (dropWhile P (rev s)) = rev (drop (length (takeWhile P (rev s))) (rev s))"
    by simp
  then show ?thesis by (simp add: rev_drop)
qed

lemma canonical_strip: "canonical b s \<Longrightarrow> canonical b' (strip_chars (CHR ''-'') s)"
  unfolding strip_chars_def rev_dropWhile_rev
  by (rule canonical_take) (rule canonical_dropWhile)

lemma canonical_chars: "canonical b s \<Longrightarrow> c \<in> set s \<Longrightarrow> alnum c \<or> c = CHR ''-''"
proof (induction s arbitrary: b)
  case Nil
  then show ?case by simp
next
  case (Cons x xs)
  show ?case
  proof (cases "c = x")
    case True
    with Cons.prems(1) show ?thesis by (cases "alnum x") simp_all
  next
    case False
    with Cons.prems(2) have "c \<in> set xs" by simp
    moreover from Cons.prems(1) have "canonical False xs \<or> canonical True xs"
      by (cases "alnum x") simp_all
    ultimately show ?thesis using Cons.IH by blast
  qed
qed

lemma lower_char_alnum: "alnum c \<Longrightarrow> lower_char c = c"
  by (auto simp: alnum_def lower_char_def Let_def)

lemma lower_char_hyphen: "lower_char (CHR ''-'') = CHR ''-''"
  by (simp add: lower_char_def)

lemma lower_canonical: "canonical b s \<Longrightarrow> lower s = s"
  unfolding lower_def
  by (rule map_idI) (auto dest: canonical_chars simp: lower_char_alnum lower_char_hyphen)

lemma dropWhile_take_id:
  assumes "dropWhile P s = s"
  shows "dropWhile P (take n s) = take n s"
proof (cases "take n s")
  case Nil
  show ?thesis unfolding Nil by simp
next
  case (Cons x xs)
  then have "s \<noteq> []" and "x = hd s" by (cases s; cases n; simp)+
  with assms have "\<not> P x" by (metis hd_dropWhile)
  with Cons show ?thesis by simp
qed

lemma strip_chars_idem: "strip_chars c (strip_chars c s) = strip_chars c s"
proof -
  let ?P = "\<lambda>x. x = c"
  let ?a = "dropWhile ?P s"
  let ?b = "rev (dropWhile ?P (rev ?a))"
  have a: "dropWhile ?P ?a = ?a" by (rule dropWhile_idem)
  have "?b = take (length ?a - length (takeWhile ?P (rev ?a))) ?a"
    by (rule rev_dropWhile_rev)
  then have b: "dropWhile ?P ?b = ?b" using dropWhile_take_id [OF a] by simp
  have "rev (dropWhile ?P (rev ?b)) = ?b" by (simp add: dropWhile_idem)
  with b show ?thesis by (simp add: strip_chars_def)
qed

text \<open>
  Claim C9. Slug generation is idempotent: a string built by \<open>slugify\<close> (lower-casing,
  replacing every run of characters outside \<open>[a-z0-9]\<close> by one hyphen, trimming the
  hyphens at both ends) is left unchanged by \<open>slugify\<close>.
\<close>

theorem slugify_idempotent: "slugify (slugify s) = slugify s"
proof -
  let ?u = "slugify s"
  have can: "canonical False ?u"
    unfolding slugify_def by (rule canonical_strip) (rule canonical_sub_runs)
  have "sub_runs False (lower ?u) = ?u"
    using can by (simp add: lower_canonical sub_runs_canonical)
  then have "slugify ?u = strip_chars (CHR ''-'') ?u" by (simp add: slugify_def)
  also have "\<dots> = ?u" unfolding slugify_def by (rule strip_chars_idem)
  finally show ?thesis .
qed

subsection \<open>The scenario of the specification\<close>

text \<open>
  Claim C5. On the consolidated Markdown of the scenario the splitter emits exactly one
  record, with title \<open>A\<close>, slug \<open>a\<close>, content \<open>Body A\<close> and file path \<open>a.md\<close>.
\<close>

theorem scenario_one_record:
  "extract_data_from_markdown (Some scenario_markdown) =
     Some [\<lparr>rd_title = ''A'', rd_slug = ''a'', rd_content = ''Body A'', rd_filepath = ''a.md''\<rparr>]"
  by code_simp

subsection \<open>The annotation marker\<close>

lemma startswith_take: "startswith p s \<longleftrightarrow> take (length p) s = p"
  by (induction p s rule: startswith.induct) auto

lemma find_sub_startswith: "startswith p s \<Longrightarrow> find_sub p s = Some 0"
  by (cases s; cases p) simp_all

lemma split_first_startswith:
  "startswith p s \<Longrightarrow> split_first p s = [[], drop (length p) s]"
  by (simp add: split_first_def find_sub_startswith)

lemma annotation_content_startswith:
  assumes "startswith '':::'' rest"
  shows "annotation_content rest =
    (let t = strip (drop 3 rest) in if length t > 100 \<or> search_md_line t then t else [])"
proof -
  have "split_first '':::'' rest = [[], drop 3 rest]"
    using split_first_startswith [OF assms] by (simp add: numeral_3_eq_3)
  moreover have "strip [] = []" by (simp add: strip_def)
  ultimately show ?thesis by (simp add: annotation_content_def Let_def)
qed

text \<open>
  Claim C6, as amended. For every document body in which a metadata block is found: let the
  remaining text be the body with the block removed once and trimmed. If the remaining text
  begins with three colons, the text before the marker is empty, and with \<open>t\<close> the text after
  the marker trimmed of white space at both ends: when \<open>t\<close> has more than 100 characters or
  has a line beginning with one of \<open>#\<close>, \<open>*\<close>, backtick, \<open>-\<close>, the content is exactly \<open>t\<close>;
  otherwise the content is the (empty) text before the marker. If the remaining text does
  not begin with three colons it is the content. A body without a metadata block is
  returned as it is, whether or not it begins with three colons.
\<close>

theorem annotation_heuristic:
  fixes body block :: string
  defines "rest \<equiv> strip (replace_first block [] body)"
  defines "t \<equiv> strip (drop 3 rest)"
  shows "(search_metadata_block body = Some block \<and> startswith '':::'' rest \<longrightarrow>
            split_first '':::'' rest = [[], drop 3 rest]
            \<and> snd (extract_metadata_and_clean_content body) =
                (if 100 < length t \<or> search_md_line t then t else []))
       \<and> (search_metadata_block body = Some block \<and> \<not> startswith '':::'' rest \<longrightarrow>
            snd (extract_metadata_and_clean_content body) = rest)
       \<and> (search_metadata_block body = None \<longrightarrow>
            snd (extract_metadata_and_clean_content body) = body)"
proof (intro conjI impI)
  assume a: "search_metadata_block body = Some block \<and> startswith '':::'' rest"
  then show "split_first '':::'' rest = [[], drop 3 rest]"
    using split_first_startswith [of "'':::''" rest] by (simp add: numeral_3_eq_3)
  from a have "annotation_content rest =
      (let t = strip (drop 3 rest) in if 100 < length t \<or> search_md_line t then t else [])"
    by (simp add: annotation_content_startswith)
  with a show "snd (extract_metadata_and_clean_content body) =
      (if 100 < length t \<or> search_md_line t then t else [])"
    by (simp add: extract_metadata_and_clean_content_def Let_def rest_def t_def)
next
  assume "search_metadata_block body = Some block \<and> \<not> startswith '':::'' rest"
  then show "snd (extract_metadata_and_clean_content body) = rest"
    by (simp add: extract_metadata_and_clean_content_def Let_def rest_def)
next
  assume "search_metadata_block body = None"
  then show "snd (extract_metadata_and_clean_content body) = body"
    by (simp add: extract_metadata_and_clean_content_def)
qed

theorem annotation_heuristic_witness:
  "snd (extract_metadata_and_clean_content annotated_body) = ''# Heading''
   \<and> snd (extract_metadata_and_clean_content note_body) = []
   \<and> snd (extract_metadata_and_clean_content
        ''## Metadata_Start\<newline>## title: T\<newline>## Metadata_End\<newline>Body'') = ''Body''
   \<and> snd (extract_metadata_and_clean_content bare_body) = bare_body"
proof -
  let ?block = "''## Metadata_Start\<newline>## title: T\<newline>## Metadata_End''"
  have a1: "search_metadata_block annotated_body = Some ?block
      \<and> startswith '':::'' (strip (replace_first ?block [] annotated_body))"
    by code_simp
  have a2: "(if 100 < length (strip (drop 3 (strip (replace_first ?block [] annotated_body))))
          \<or> search_md_line (strip (drop 3 (strip (replace_first ?block [] annotated_body))))
       then strip (drop 3 (strip (replace_first ?block [] annotated_body))) else [])
      = ''# Heading''"
    by code_simp
  have a: "snd (extract_metadata_and_clean_content annotated_body) = ''# Heading''"
    using annotation_heuristic [of annotated_body ?block] a1 a2 by simp
  have b1: "search_metadata_block note_body = Some ?block
      \<and> startswith '':::'' (strip (replace_first ?block [] note_body))"
    by code_simp
  have b2: "(if 100 < length (strip (drop 3 (strip (replace_first ?block [] note_body))))
          \<or> search_md_line (strip (drop 3 (strip (replace_first ?block [] note_body))))
       then strip (drop 3 (strip (replace_first ?block [] note_body))) else [])
      = []"
    by code_simp
  have b: "snd (extract_metadata_and_clean_content note_body) = []"
    using annotation_heuristic [of note_body ?block] b1 b2 by simp
  let ?plain = "''## Metadata_Start\<newline>## title: T\<newline>## Metadata_End\<newline>Body''"
  have c1: "search_metadata_block ?plain = Some ?block
      \<and> \<not> startswith '':::'' (strip (replace_first ?block [] ?plain))"
    by code_simp
  have c2: "strip (replace_first ?block [] ?plain) = ''Body''" by code_simp
  have c: "snd (extract_metadata_and_clean_content ?plain) = ''Body''"
    using annotation_heuristic [of ?plain ?block] c1 c2 by simp
  have d1: "search_metadata_block bare_body = None" by code_simp
  have d: "snd (extract_metadata_and_clean_content bare_body) = bare_body"
    using annotation_heuristic [of bare_body] d1 by simp
  from a b c d show ?thesis by blast
qed

text \<open>
  Claim C6 as stated fails where white space follows the marker. After the metadata block
  is removed the text is \<open>::: # Heading\<close>; the text following the marker, \<open> # Heading\<close>, has
  no more than 100 characters and no line beginning with a structural character (its only
  line begins with a space), so the claim gives the text before the marker, which is empty.
  The code tests the trimmed text and returns \<open># Heading\<close>, which is neither the text before
  the marker nor exactly the text after it.
\<close>

theorem annotation_counterexample:
  "search_metadata_block annotated_body =
     Some ''## Metadata_Start\<newline>## title: T\<newline>## Metadata_End''
   \<and> strip (replace_first ''## Metadata_Start\<newline>## title: T\<newline>## Metadata_End'' []
        annotated_body) = ''::: # Heading''
   \<and> drop 3 ''::: # Heading'' = '' # Heading''
   \<and> \<not> 100 < length '' # Heading''
   \<and> \<not> search_md_line '' # Heading''
   \<and> snd (extract_metadata_and_clean_content annotated_body) = ''# Heading''
   \<and> ''# Heading'' \<noteq> '' # Heading''
   \<and> ''# Heading'' \<noteq> []"
  by code_simp

section \<open>Properties of the similarity search\<close>

lemma scan_docs_candidates:
  "\<forall>d \<in> set docs. embedding d \<noteq> None \<Longrightarrow>
   \<exists>ws. scan_docs cosine q docs = Inr (candidates cosine q docs, ws)"
proof (induction docs)
  case Nil
  show ?case by (simp add: candidates_def)
next
  case (Cons d ds)
  from Cons.prems obtain v where v: "embedding d = Some v" by auto
  from Cons obtain ws where ws: "scan_docs cosine q ds = Inr (candidates cosine q ds, ws)"
    by auto
  show ?case
  proof (cases "0 < length v \<and> length q = length v")
    case True
    then show ?thesis using v ws
      by (cases "cosine q v")
         (simp_all add: candidates_def candidate_def valid_embedding_def
            np_array_def np_len_def np_data_def)
  next
    case False
    then show ?thesis using v ws
      by (auto simp add: candidates_def candidate_def valid_embedding_def
            np_array_def np_len_def np_data_def)
  qed
qed

lemma sort_desc_sorted: "sorted_wrt (\<lambda>a b. f b \<le> f a) (sort_desc f xs)"
proof -
  have "sorted (map f (sort_key f (rev xs)))" by (rule sorted_sort_key)
  then have "sorted_wrt (\<lambda>a b. f a \<le> f b) (sort_key f (rev xs))"
    by (simp add: sorted_wrt_map)
  then show ?thesis by (simp add: sort_desc_def sorted_wrt_rev)
qed

lemma sort_desc_stable: "filter (\<lambda>x. f x = k) (sort_desc f xs) = filter (\<lambda>x. f x = k) xs"
proof -
  have "filter (\<lambda>x. f x = k) (sort_key f (rev xs)) = filter (\<lambda>x. f x = k) (rev xs)"
    by (rule sort_key_stable)
  then show ?thesis by (simp add: sort_desc_def rev_filter [symmetric])
qed

lemma sort_desc_set: "set (sort_desc f xs) = set xs"
  by (simp add: sort_desc_def)

lemma sort_desc_length: "length (sort_desc f xs) = length xs"
  by (simp add: sort_desc_def)

lemma slice_to_take: "0 \<le> k \<Longrightarrow> slice_to k xs = take (nat k) xs"
  by (simp add: slice_to_def)

lemma candidates_valid:
  "(s, d) \<in> set (candidates cosine q docs) \<Longrightarrow> d \<in> set docs \<and> valid_embedding q d"
proof (induction docs)
  case Nil
  then show ?case by (simp add: candidates_def)
next
  case (Cons x xs)
  show ?case
  proof (cases "candidate cosine q x")
    case None
    with Cons.prems have "(s, d) \<in> set (candidates cosine q xs)"
      by (simp add: candidates_def)
    with Cons.IH show ?thesis by simp
  next
    case (Some m)
    then have m: "snd m = x \<and> valid_embedding q x"
      by (auto simp: candidate_def split: option.splits if_splits)
    from Some Cons.prems have "(s, d) = m \<or> (s, d) \<in> set (candidates cosine q xs)"
      by (auto simp: candidates_def)
    with m Cons.IH show ?thesis by auto
  qed
qed

lemma candidates_none: "\<forall>d \<in> set docs. \<not> valid_embedding q d \<Longrightarrow> candidates cosine q docs = []"
  by (induction docs) (auto simp: candidates_def candidate_def split: option.splits)

text \<open>
  Claim C1. The claim: for every corpus, also one holding records whose embedding is null,
  the search is total and skips such records with a warning. On the code a record with a
  null (or absent) embedding makes the search raise: \<open>np.array(None)\<close> is an array of
  dimension 0, the test \<open>is not None\<close> holds for it, and \<open>len\<close> of it raises \<open>TypeError\<close>,
  which the \<open>except ValueError\<close> around the distance does not catch. The theorem evaluates
  the search on any corpus whose first record has a null embedding.
\<close>

theorem null_embedding_raises:
  "get_relevant_documents cosine (doc\<lparr>embedding := None\<rparr> # docs) query_embedding top_k =
     Inl (TypeError ''len() of unsized object'')"
  by (simp add: get_relevant_documents_def np_array_def np_len_def)

text \<open>
  Claim C3. The claim: for every query vector and every \<open>k\<close> the search returns at most
  \<open>k\<close> matches in descending similarity, ties in the order of the corpus, and returns the
  empty sequence, as a normal outcome, when no document passes the embedding-validity
  filter. On the code this fails with the default \<open>k = 5\<close> through the defect of claim C1:
  on a corpus whose records all have a null embedding no document passes the filter, yet
  the search raises \<open>TypeError\<close> instead of returning the empty sequence; and on a corpus
  that holds valid records and one record with a null embedding it raises instead of
  returning the ranked matches.
\<close>

theorem null_corpus_search_raises:
  "list_all (\<lambda>d. \<not> valid_embedding [1] d) null_corpus
   \<and> get_relevant_documents sample_cosine null_corpus [1] top_k_default =
       Inl (TypeError ''len() of unsized object'')
   \<and> get_relevant_documents sample_cosine (sample_corpus @ null_corpus) [1] top_k_default =
       Inl (TypeError ''len() of unsized object'')"
  by (simp add: get_relevant_documents_def null_corpus_def sample_corpus_def sample_doc_def
      valid_embedding_def np_array_def np_len_def np_data_def sample_cosine_def get_or_def)

text \<open>
  Where no embedding of the corpus is null the defect does not show. For a \<open>k\<close> that is
  not negative the search then returns the first \<open>k\<close> entries (all of them when there are
  fewer) of the list that holds every candidate, in descending similarity, candidates of
  equal similarity in the order of the corpus; every match is a document of the corpus that
  passes the filter, and there is no match when no document passes it. This rests on the
  scores being linearly ordered.
\<close>

lemma search_top_k:
  assumes k: "0 \<le> k" and nonnull: "\<forall>d \<in> set docs. embedding d \<noteq> None"
  shows "\<exists>ms rest ws. get_relevant_documents cosine docs q k = Inr (ms, ws)
           \<and> length ms = min (nat k) (length (candidates cosine q docs))
           \<and> sorted_wrt (\<lambda>a b. fst b \<le> fst a) (ms @ rest)
           \<and> (\<forall>s. filter (\<lambda>m. fst m = s) (ms @ rest) =
                      filter (\<lambda>m. fst m = s) (candidates cosine q docs))
           \<and> (\<forall>m \<in> set ms. snd m \<in> set docs \<and> valid_embedding q (snd m))
           \<and> ((\<forall>d \<in> set docs. \<not> valid_embedding q d) \<longrightarrow> ms = [])"
proof -
  let ?c = "candidates cosine q docs"
  let ?ms = "take (nat k) (sort_desc fst ?c)"
  let ?rest = "drop (nat k) (sort_desc fst ?c)"
  from scan_docs_candidates [OF nonnull] obtain ws
    where ws: "scan_docs cosine q docs = Inr (?c, ws)" by blast
  have res: "get_relevant_documents cosine docs q k = Inr (?ms, ws)"
    using ws k by (simp add: get_relevant_documents_def slice_to_take)
  have len: "length ?ms = min (nat k) (length ?c)"
    by (simp add: sort_desc_length min.commute)
  have srt: "sorted_wrt (\<lambda>a b. fst b \<le> fst a) (?ms @ ?rest)"
    by (simp add: sort_desc_sorted)
  have stable: "filter (\<lambda>m. fst m = s) (?ms @ ?rest) = filter (\<lambda>m. fst m = s) ?c" for s
    using sort_desc_stable [of fst s ?c] by simp
  have valid: "snd m \<in> set docs \<and> valid_embedding q (snd m)" if "m \<in> set ?ms" for m
  proof -
    from that have "m \<in> set ?c" using sort_desc_set by (metis in_set_takeD)
    then show ?thesis using candidates_valid [of "fst m" "snd m"] by simp
  qed
  have empty: "?ms = []" if "\<forall>d \<in> set docs. \<not> valid_embedding q d"
  proof -
    have "?c = []" by (rule candidates_none [OF that])
    then show ?thesis by (simp add: sort_desc_def)
  qed
  from res len srt stable valid empty show ?thesis by blast
qed

section \<open>Properties of the coverage analyzer\<close>

text \<open>
  Claim C4, as amended. When the corpus is empty the analyzer answers with the fixed
  "documentation not loaded" message and an empty \<open>relevant_docs_info\<close>, without calling
  the generative model, whatever the ranked matches are. When the corpus is not empty, the
  mode depends only on whether the ranked matches are empty: with no match the model is
  asked for suggestions at temperature 0.7, the response text begins with the fixed "not
  found" prefix and \<open>relevant_docs_info\<close> is empty; with a match the model is asked at
  temperature 0.4 and the response text begins with the "partly covered" prefix (or a
  \<open>KeyError\<close> leaves the function before any call).
\<close>

theorem analyzer_modes:
  "(PROCESSED_DOCS = [] \<longrightarrow>
      analyze_coverage_with_context PROCESSED_DOCS generate percent query ranked =
        (Inr \<lparr>response_text = msg_not_loaded, relevant_docs_info = []\<rparr>, []))
   \<and> (PROCESSED_DOCS \<noteq> [] \<longrightarrow>
      (\<exists>text. analyze_coverage_with_context PROCESSED_DOCS generate percent query [] =
        (Inr \<lparr>response_text = not_found_prefix query @ text, relevant_docs_info = []\<rparr>,
         [GenerateCall (prompt_for_suggestions query) (7 / 10)])))
   \<and> (PROCESSED_DOCS \<noteq> [] \<and> ranked \<noteq> [] \<longrightarrow>
      (case analyze_coverage_with_context PROCESSED_DOCS generate percent query ranked of
         (Inl e, calls) \<Rightarrow> calls = []
       | (Inr result, calls) \<Rightarrow>
           prefix (partly_covered_prefix query) (response_text result)
           \<and> (\<exists>context_str. calls =
                 [GenerateCall (prompt_for_refinement query context_str) (4 / 10)])))"
proof (intro conjI impI)
  assume "PROCESSED_DOCS = []"
  then show "analyze_coverage_with_context PROCESSED_DOCS generate percent query ranked =
        (Inr \<lparr>response_text = msg_not_loaded, relevant_docs_info = []\<rparr>, [])"
    by (simp add: analyze_coverage_with_context_def)
next
  assume "PROCESSED_DOCS \<noteq> []"
  then show "\<exists>text. analyze_coverage_with_context PROCESSED_DOCS generate percent query [] =
        (Inr \<lparr>response_text = not_found_prefix query @ text, relevant_docs_info = []\<rparr>,
         [GenerateCall (prompt_for_suggestions query) (7 / 10)])"
    by (cases "generate (prompt_for_suggestions query) (7 / 10)")
       (simp_all add: analyze_coverage_with_context_def)
next
  assume a: "PROCESSED_DOCS \<noteq> [] \<and> ranked \<noteq> []"
  show "case analyze_coverage_with_context PROCESSED_DOCS generate percent query ranked of
         (Inl e, calls) \<Rightarrow> calls = []
       | (Inr result, calls) \<Rightarrow>
           prefix (partly_covered_prefix query) (response_text result)
           \<and> (\<exists>context_str. calls =
                 [GenerateCall (prompt_for_refinement query context_str) (4 / 10)])"
  proof (cases "build_context percent ranked")
    case (Inl e)
    with a show ?thesis by (simp add: analyze_coverage_with_context_def)
  next
    case (Inr p)
    obtain context_str infos where p: "p = (context_str, infos)" by (cases p)
    show ?thesis
      using a Inr p
      by (cases "generate (prompt_for_refinement query context_str) (4 / 10)")
         (auto simp add: analyze_coverage_with_context_def)
  qed
qed

theorem analyzer_modes_witness:
  "analyze_coverage_with_context ([] :: int doc_info list) ok_generate sample_percent ''pam''
       [(1, sample_doc ''a'' (Some [1]))] =
     (Inr \<lparr>response_text = msg_not_loaded, relevant_docs_info = []\<rparr>, [])
   \<and> (\<exists>text. analyze_coverage_with_context mismatched_corpus failing_generate sample_percent
         ''pam'' ([] :: (int \<times> int doc_info) list) =
        (Inr \<lparr>response_text = not_found_prefix ''pam'' @ text, relevant_docs_info = []\<rparr>,
         [GenerateCall (prompt_for_suggestions ''pam'') (7 / 10)]))
   \<and> (\<exists>result calls.
         analyze_coverage_with_context sample_corpus ok_generate sample_percent ''pam''
           [(1, sample_doc ''a'' (Some [1]))] = (Inr result, calls)
         \<and> prefix (partly_covered_prefix ''pam'') (response_text result))"
proof -
  have ne1: "mismatched_corpus \<noteq> []" by (simp add: mismatched_corpus_def)
  have ne2: "sample_corpus \<noteq> [] \<and> [(1::int, sample_doc ''a'' (Some [1]))] \<noteq> []"
    by (simp add: sample_corpus_def)
  have "\<exists>result calls.
      analyze_coverage_with_context sample_corpus ok_generate sample_percent ''pam''
        [(1, sample_doc ''a'' (Some [1]))] = (Inr result, calls)"
    using ne2
    by (simp add: analyze_coverage_with_context_def ok_generate_def sample_doc_def)
  then obtain result calls where ok:
      "analyze_coverage_with_context sample_corpus ok_generate sample_percent ''pam''
        [(1, sample_doc ''a'' (Some [1]))] = (Inr result, calls)"
    by blast
  from analyzer_modes [of "[] :: int doc_info list" ok_generate sample_percent "''pam''"
      "[(1, sample_doc ''a'' (Some [1]))]"]
  have a: "analyze_coverage_with_context ([] :: int doc_info list) ok_generate sample_percent
       ''pam'' [(1, sample_doc ''a'' (Some [1]))] =
     (Inr \<lparr>response_text = msg_not_loaded, relevant_docs_info = []\<rparr>, [])"
    by simp
  from analyzer_modes [of mismatched_corpus failing_generate sample_percent "''pam''" "[]"] ne1
  have b: "\<exists>text. analyze_coverage_with_context mismatched_corpus failing_generate sample_percent
         ''pam'' ([] :: (int \<times> int doc_info) list) =
        (Inr \<lparr>response_text = not_found_prefix ''pam'' @ text, relevant_docs_info = []\<rparr>,
         [GenerateCall (prompt_for_suggestions ''pam'') (7 / 10)])"
    by simp
  from analyzer_modes [of sample_corpus ok_generate sample_percent "''pam''"
      "[(1, sample_doc ''a'' (Some [1]))]"] ne2 ok
  have c: "\<exists>result calls.
         analyze_coverage_with_context sample_corpus ok_generate sample_percent ''pam''
           [(1, sample_doc ''a'' (Some [1]))] = (Inr result, calls)
         \<and> prefix (partly_covered_prefix ''pam'') (response_text result)"
    by simp
  from a b c show ?thesis by blast
qed

text \<open>
  Claim C4 as stated fails on the empty corpus: with zero ranked matches the response text
  is the "documentation not loaded" message, which does not begin with the "not found"
  prefix.
\<close>

theorem empty_corpus_counterexample:
  "analyze_coverage_with_context ([] :: int doc_info list) ok_generate sample_percent ''pam''
       ([] :: (int \<times> int doc_info) list) =
     (Inr \<lparr>response_text = msg_not_loaded, relevant_docs_info = []\<rparr>, [])
   \<and> \<not> prefix (not_found_prefix ''pam'') msg_not_loaded"
  by (simp add: analyze_coverage_with_context_def not_found_prefix_def msg_not_loaded_def)

section \<open>Properties of the route\<close>

lemma strip_pam: "strip '' pam '' = ''pam''"
  by (simp add: strip_def is_space_def)

lemma sample_ranked:
  "get_relevant_documents sample_cosine sample_corpus [1] 5 =
     Inr ([(2, sample_doc ''b'' (Some [2])), (1, sample_doc ''a'' (Some [1])),
           (1, sample_doc ''c'' (Some [1]))],
          [InvalidEmbeddingWarning ''d'', InvalidEmbeddingWarning ''e''])"
  by (simp add: get_relevant_documents_def sample_corpus_def sample_doc_def sample_cosine_def
      np_array_def np_len_def np_data_def get_or_def sort_desc_def slice_to_def)

lemma mismatched_ranked:
  "get_relevant_documents sample_cosine mismatched_corpus [1] 5 =
     Inr ([], [InvalidEmbeddingWarning ''d'', InvalidEmbeddingWarning ''e''])"
  by (simp add: get_relevant_documents_def mismatched_corpus_def sample_doc_def
      np_array_def np_len_def np_data_def get_or_def sort_desc_def slice_to_def)

text \<open>
  Claim C2, as amended. For a request whose query is a non-blank string: when the call that
  embeds the query fails, the failure is caught once and the route answers with status 500
  and a body that holds only an error message (no \<open>response_text\<close>, no
  \<open>relevant_docs_info\<close>), without calling the generative model. When the query is embedded,
  the corpus is loaded, the search returns and the context is built, a failure of the
  generative model, in either mode, is caught once and the route answers with status 200,
  the fixed prefix of the mode followed by the error note as \<open>response_text\<close>, and an empty
  \<open>relevant_docs_info\<close>. In neither case does an exception leave the route.
\<close>

theorem external_failures:
  assumes q: "dict_get data ''query'' (JStr []) = Inr (JStr s)" and ne: "strip s \<noteq> []"
  shows "((\<exists>e. embed_content (strip s) = Inl e) \<longrightarrow>
            handle_analyze_coverage PROCESSED_DOCS embed_content generate cosine percent data =
              (Inr \<lparr>status = 500, body_error = Some msg_no_embedding,
                    body_response_text = None, body_relevant_docs_info = None\<rparr>,
               [EmbedCall (strip s)]))
       \<and> (\<forall>v ranked ws context_str infos.
            embed_content (strip s) = Inr v \<and> PROCESSED_DOCS \<noteq> []
            \<and> get_relevant_documents cosine PROCESSED_DOCS v 5 = Inr (ranked, ws)
            \<and> build_context percent ranked = Inr (context_str, infos)
            \<and> (\<forall>prompt temperature. \<exists>e. generate prompt temperature = Inl e) \<longrightarrow>
            handle_analyze_coverage PROCESSED_DOCS embed_content generate cosine percent data =
              (Inr \<lparr>status = 200, body_error = None,
                    body_response_text =
                      Some (if ranked = []
                            then not_found_prefix (strip s) @ not_found_error
                            else partly_covered_prefix (strip s) @ partly_covered_error),
                    body_relevant_docs_info = Some []\<rparr>,
               [EmbedCall (strip s),
                if ranked = [] then GenerateCall (prompt_for_suggestions (strip s)) (7 / 10)
                else GenerateCall (prompt_for_refinement (strip s) context_str) (4 / 10)]))"
proof (intro conjI impI allI)
  assume "\<exists>e. embed_content (strip s) = Inl e"
  then obtain e where "embed_content (strip s) = Inl e" by blast
  then show "handle_analyze_coverage PROCESSED_DOCS embed_content generate cosine percent data =
      (Inr \<lparr>status = 500, body_error = Some msg_no_embedding,
            body_response_text = None, body_relevant_docs_info = None\<rparr>,
       [EmbedCall (strip s)])"
    using q ne by (simp add: handle_analyze_coverage_def json_strip_def generate_embedding_def)
next
  fix v ranked ws context_str infos
  assume a: "embed_content (strip s) = Inr v \<and> PROCESSED_DOCS \<noteq> []
            \<and> get_relevant_documents cosine PROCESSED_DOCS v 5 = Inr (ranked, ws)
            \<and> build_context percent ranked = Inr (context_str, infos)
            \<and> (\<forall>prompt temperature. \<exists>e. generate prompt temperature = Inl e)"
  let ?p = "if ranked = [] then prompt_for_suggestions (strip s)
            else prompt_for_refinement (strip s) context_str"
  let ?t = "if ranked = [] then 7 / 10 else 4 / 10 :: real"
  from a obtain e where e: "generate ?p ?t = Inl e" by blast
  have an: "analyze_coverage_with_context PROCESSED_DOCS generate percent (strip s) ranked =
      (Inr \<lparr>response_text =
              (if ranked = [] then not_found_prefix (strip s) @ not_found_error
               else partly_covered_prefix (strip s) @ partly_covered_error),
            relevant_docs_info = []\<rparr>,
       [GenerateCall ?p ?t])"
    using a e by (cases "ranked = []") (simp_all add: analyze_coverage_with_context_def)
  show "handle_analyze_coverage PROCESSED_DOCS embed_content generate cosine percent data =
      (Inr \<lparr>status = 200, body_error = None,
            body_response_text =
              Some (if ranked = []
                    then not_found_prefix (strip s) @ not_found_error
                    else partly_covered_prefix (strip s) @ partly_covered_error),
            body_relevant_docs_info = Some []\<rparr>,
       [EmbedCall (strip s),
        if ranked = [] then GenerateCall (prompt_for_suggestions (strip s)) (7 / 10)
        else GenerateCall (prompt_for_refinement (strip s) context_str) (4 / 10)])"
    using q ne a an
    by (cases "ranked = []")
       (simp_all add: handle_analyze_coverage_def json_strip_def generate_embedding_def)
qed

theorem external_failures_witness:
  "handle_analyze_coverage sample_corpus failing_embed failing_generate sample_cosine
       sample_percent pam_request =
     (Inr \<lparr>status = 500, body_error = Some msg_no_embedding,
           body_response_text = None, body_relevant_docs_info = None\<rparr>,
      [EmbedCall ''pam''])
   \<and> handle_analyze_coverage mismatched_corpus ok_embed failing_generate sample_cosine
       sample_percent pam_request =
     (Inr \<lparr>status = 200, body_error = None,
           body_response_text = Some (not_found_prefix ''pam'' @ not_found_error),
           body_relevant_docs_info = Some []\<rparr>,
      [EmbedCall ''pam'', GenerateCall (prompt_for_suggestions ''pam'') (7 / 10)])
   \<and> (\<exists>context_str.
        handle_analyze_coverage sample_corpus ok_embed failing_generate sample_cosine
          sample_percent pam_request =
        (Inr \<lparr>status = 200, body_error = None,
              body_response_text = Some (partly_covered_prefix ''pam'' @ partly_covered_error),
              body_relevant_docs_info = Some []\<rparr>,
         [EmbedCall ''pam'', GenerateCall (prompt_for_refinement ''pam'' context_str) (4 / 10)]))"
proof -
  have q: "dict_get pam_request ''query'' (JStr []) = Inr (JStr '' pam '')"
    by (simp add: pam_request_def dict_get_def)
  have ne: "strip '' pam '' \<noteq> []" by (simp add: strip_pam)
  have fe: "\<exists>e. failing_embed (strip '' pam '') = Inl e" by (simp add: failing_embed_def)
  have fg: "\<forall>prompt temperature. \<exists>e. failing_generate prompt temperature = Inl e"
    by (simp add: failing_generate_def)
  have oe: "ok_embed (strip '' pam '') = Inr [1]" by (simp add: ok_embed_def)
  have ne1: "sample_corpus \<noteq> []" by (simp add: sample_corpus_def)
  have ne2: "mismatched_corpus \<noteq> []" by (simp add: mismatched_corpus_def)
  have bc0: "build_context sample_percent ([] :: (int \<times> int doc_info) list) = Inr ([], [])"
    by simp
  have "\<exists>context_str infos. build_context sample_percent
      [(2, sample_doc ''b'' (Some [2])), (1, sample_doc ''a'' (Some [1])),
       (1, sample_doc ''c'' (Some [1]))] = Inr (context_str, infos)"
    by (simp add: sample_doc_def)
  then obtain context_str infos where bc: "build_context sample_percent
      [(2, sample_doc ''b'' (Some [2])), (1, sample_doc ''a'' (Some [1])),
       (1, sample_doc ''c'' (Some [1]))] = Inr (context_str, infos)"
    by blast
  note th = external_failures [OF q ne]
  have a: "handle_analyze_coverage sample_corpus failing_embed failing_generate sample_cosine
       sample_percent pam_request =
     (Inr \<lparr>status = 500, body_error = Some msg_no_embedding,
           body_response_text = None, body_relevant_docs_info = None\<rparr>,
      [EmbedCall ''pam''])"
    using th [of failing_embed sample_corpus failing_generate sample_cosine sample_percent] fe
    by (simp add: strip_pam)
  have b: "handle_analyze_coverage mismatched_corpus ok_embed failing_generate sample_cosine
       sample_percent pam_request =
     (Inr \<lparr>status = 200, body_error = None,
           body_response_text = Some (not_found_prefix ''pam'' @ not_found_error),
           body_relevant_docs_info = Some []\<rparr>,
      [EmbedCall ''pam'', GenerateCall (prompt_for_suggestions ''pam'') (7 / 10)])"
    using th [of ok_embed mismatched_corpus failing_generate sample_cosine sample_percent]
      oe ne2 mismatched_ranked bc0 fg
    by (simp add: strip_pam)
  have c: "handle_analyze_coverage sample_corpus ok_embed failing_generate sample_cosine
          sample_percent pam_request =
        (Inr \<lparr>status = 200, body_error = None,
              body_response_text = Some (partly_covered_prefix ''pam'' @ partly_covered_error),
              body_relevant_docs_info = Some []\<rparr>,
         [EmbedCall ''pam'', GenerateCall (prompt_for_refinement ''pam'' context_str) (4 / 10)])"
    using th [of ok_embed sample_corpus failing_generate sample_cosine sample_percent]
      oe ne1 sample_ranked bc fg
    by (simp add: strip_pam)
  from a b c show ?thesis by blast
qed

text \<open>
  Claim C2 as stated fails for the query embedding: when the embedding service fails at
  request time the response has status 500 and neither \<open>response_text\<close> nor
  \<open>relevant_docs_info\<close>.
\<close>

theorem embedding_failure_counterexample:
  "handle_analyze_coverage sample_corpus failing_embed ok_generate sample_cosine sample_percent
       pam_request =
     (Inr \<lparr>status = 500, body_error = Some msg_no_embedding,
           body_response_text = None, body_relevant_docs_info = None\<rparr>,
      [EmbedCall ''pam''])"
  by (simp add: handle_analyze_coverage_def pam_request_def dict_get_def json_strip_def
      strip_pam generate_embedding_def failing_embed_def)

text \<open>
  Claim C7, as amended. For every request whose body is a JSON object in which \<open>query\<close> is
  absent or is a blank string (empty or white space only), the route answers at once with
  status 400 and an error message, and no call to the embedding or the generative service
  is made. For a body that is not a JSON object, and for one whose \<open>query\<close> is not a string,
  no client-error response is built: an \<open>AttributeError\<close> leaves the function, raised by the
  two statements before the \<open>try\<close>, again before any call to an external service.
\<close>

theorem blank_query_rejected:
  "(\<forall>s. dict_get data ''query'' (JStr []) = Inr (JStr s) \<and> strip s = [] \<longrightarrow>
      handle_analyze_coverage PROCESSED_DOCS embed_content generate cosine percent data =
        (Inr \<lparr>status = 400, body_error = Some msg_no_query,
              body_response_text = None, body_relevant_docs_info = None\<rparr>, []))
   \<and> ((\<forall>items. data \<noteq> JObj items) \<longrightarrow>
      handle_analyze_coverage PROCESSED_DOCS embed_content generate cosine percent data =
        (Inl (AttributeError ''get''), []))
   \<and> (\<forall>v. dict_get data ''query'' (JStr []) = Inr v \<and> (\<forall>s. v \<noteq> JStr s) \<longrightarrow>
      handle_analyze_coverage PROCESSED_DOCS embed_content generate cosine percent data =
        (Inl (AttributeError ''strip''), []))"
proof (intro conjI impI allI)
  fix s
  assume "dict_get data ''query'' (JStr []) = Inr (JStr s) \<and> strip s = []"
  then show "handle_analyze_coverage PROCESSED_DOCS embed_content generate cosine percent data =
        (Inr \<lparr>status = 400, body_error = Some msg_no_query,
              body_response_text = None, body_relevant_docs_info = None\<rparr>, [])"
    by (simp add: handle_analyze_coverage_def json_strip_def)
next
  assume "\<forall>items. data \<noteq> JObj items"
  then have "dict_get data ''query'' (JStr []) = Inl (AttributeError ''get'')"
    by (cases data) (simp_all add: dict_get_def)
  then show "handle_analyze_coverage PROCESSED_DOCS embed_content generate cosine percent data =
        (Inl (AttributeError ''get''), [])"
    by (simp add: handle_analyze_coverage_def)
next
  fix v
  assume a: "dict_get data ''query'' (JStr []) = Inr v \<and> (\<forall>s. v \<noteq> JStr s)"
  then have "json_strip v = Inl (AttributeError ''strip'')"
    by (cases v) (simp_all add: json_strip_def)
  with a show "handle_analyze_coverage PROCESSED_DOCS embed_content generate cosine percent data =
        (Inl (AttributeError ''strip''), [])"
    by (simp add: handle_analyze_coverage_def)
qed

theorem blank_query_rejected_witness:
  "handle_analyze_coverage sample_corpus ok_embed ok_generate sample_cosine sample_percent
       (JObj [(''query'', JStr ''   '')]) =
     (Inr \<lparr>status = 400, body_error = Some msg_no_query,
           body_response_text = None, body_relevant_docs_info = None\<rparr>, [])
   \<and> handle_analyze_coverage sample_corpus ok_embed ok_generate sample_cosine sample_percent
       (JObj []) =
     (Inr \<lparr>status = 400, body_error = Some msg_no_query,
           body_response_text = None, body_relevant_docs_info = None\<rparr>, [])
   \<and> handle_analyze_coverage sample_corpus ok_embed ok_generate sample_cosine sample_percent
       JNull = (Inl (AttributeError ''get''), [])
   \<and> handle_analyze_coverage sample_corpus ok_embed ok_generate sample_cosine sample_percent
       (JObj [(''query'', JNum 5)]) = (Inl (AttributeError ''strip''), [])"
proof -
  have b1: "dict_get (JObj [(''query'', JStr ''   '')]) ''query'' (JStr []) = Inr (JStr ''   '')
      \<and> strip ''   '' = []"
    by (simp add: dict_get_def strip_def is_space_def)
  have b2: "dict_get (JObj []) ''query'' (JStr []) = Inr (JStr []) \<and> strip [] = []"
    by (simp add: dict_get_def strip_def)
  have b3: "\<forall>items. JNull \<noteq> JObj items" by simp
  have b4: "dict_get (JObj [(''query'', JNum 5)]) ''query'' (JStr []) = Inr (JNum 5)
      \<and> (\<forall>s. JNum 5 \<noteq> JStr s)"
    by (simp add: dict_get_def)
  note th = blank_query_rejected [of _ sample_corpus ok_embed ok_generate sample_cosine
      sample_percent]
  from th [of "JObj [(''query'', JStr ''   '')]"] b1
  have a: "handle_analyze_coverage sample_corpus ok_embed ok_generate sample_cosine
       sample_percent (JObj [(''query'', JStr ''   '')]) =
     (Inr \<lparr>status = 400, body_error = Some msg_no_query,
           body_response_text = None, body_relevant_docs_info = None\<rparr>, [])"
    by blast
  from th [of "JObj []"] b2
  have b: "handle_analyze_coverage sample_corpus ok_embed ok_generate sample_cosine
       sample_percent (JObj []) =
     (Inr \<lparr>status = 400, body_error = Some msg_no_query,
           body_response_text = None, body_relevant_docs_info = None\<rparr>, [])"
    by blast
  from th [of JNull] b3
  have c: "handle_analyze_coverage sample_corpus ok_embed ok_generate sample_cosine
       sample_percent JNull = (Inl (AttributeError ''get''), [])"
    by blast
  from th [of "JObj [(''query'', JNum 5)]"] b4
  have d: "handle_analyze_coverage sample_corpus ok_embed ok_generate sample_cosine
       sample_percent (JObj [(''query'', JNum 5)]) = (Inl (AttributeError ''strip''), [])"
    by blast
  from a b c d show ?thesis by blast
qed

text \<open>
  Claim C7 as stated fails for a malformed body: when the body is the JSON array
  \<open>["pam"]\<close>, \<open>data.get\<close> raises \<open>AttributeError\<close> outside the \<open>try\<close>, so the route returns no
  response with a client-error status.
\<close>

theorem malformed_body_counterexample:
  "handle_analyze_coverage sample_corpus ok_embed ok_generate sample_cosine sample_percent
       (JArr [JStr ''pam'']) = (Inl (AttributeError ''get''), [])"
  by (simp add: handle_analyze_coverage_def dict_get_def)

section \<open>Properties of the embedding pipeline\<close>

lemma retry_unfold:
  "generate_embedding_with_retry service text_content w =
     attempt_loop service text_content [0, 1, 2] w"
proof -
  have "[0..<retries] = [0, 1, 2]"
    by (simp add: retries_def numeral_3_eq_3 numeral_2_eq_2)
  then show ?thesis by (simp only: generate_embedding_with_retry_def)
qed

lemma retry_unrolled:
  "generate_embedding_with_retry service text_content w =
     (case service (ncalls w) text_content of
        Inr v \<Rightarrow>
          (Some v, w\<lparr>ncalls := ncalls w + 1, steps := steps w @ [EmbedRequest text_content]\<rparr>)
      | Inl e0 \<Rightarrow>
          (case service (ncalls w + 1) text_content of
             Inr v \<Rightarrow>
               (Some v, w\<lparr>ncalls := ncalls w + 2,
                          steps := steps w @ [EmbedRequest text_content, Sleep 1,
                                              EmbedRequest text_content]\<rparr>)
           | Inl e1 \<Rightarrow>
               (case service (ncalls w + 2) text_content of
                  Inr v \<Rightarrow> (Some v, exhausted text_content w)
                | Inl e2 \<Rightarrow> (None, exhausted text_content w))))"
  by (simp add: retry_unfold retries_def exhausted_def Let_def split: sum.splits)

lemma retry_outcome_3:
  "retry_outcome service text n 3 =
     (case service n text of
        Inr v \<Rightarrow> (Some v, 1)
      | Inl e0 \<Rightarrow>
          (case service (n + 1) text of
             Inr v \<Rightarrow> (Some v, 2)
           | Inl e1 \<Rightarrow>
               (case service (n + 2) text of
                  Inr v \<Rightarrow> (Some v, 3)
                | Inl e2 \<Rightarrow> (None, 3))))"
  by (simp add: numeral_3_eq_3 split: sum.splits)

lemma retry_meets_outcome:
  "fst (generate_embedding_with_retry service text w) =
     fst (retry_outcome service text (ncalls w) 3)
   \<and> ncalls (snd (generate_embedding_with_retry service text w)) =
     ncalls w + snd (retry_outcome service text (ncalls w) 3)"
  unfolding retry_unrolled retry_outcome_3
  by (simp add: exhausted_def split: sum.splits)

lemma retry_exhausted:
  assumes "\<forall>i<3. \<exists>e. service (ncalls w + i) text_content = Inl e"
  shows "generate_embedding_with_retry service text_content w =
    (None, exhausted text_content w)"
proof -
  from assms obtain e0 e1 e2 where
    f: "service (ncalls w) text_content = Inl e0"
       "service (Suc (ncalls w)) text_content = Inl e1"
       "service (Suc (Suc (ncalls w))) text_content = Inl e2"
  proof -
    have "\<exists>e. service (ncalls w) text_content = Inl e"
      using assms [rule_format, of 0] by simp
    moreover have "\<exists>e. service (Suc (ncalls w)) text_content = Inl e"
      using assms [rule_format, of 1] by simp
    moreover have "\<exists>e. service (Suc (Suc (ncalls w))) text_content = Inl e"
      using assms [rule_format, of 2] by simp
    ultimately show ?thesis using that by blast
  qed
  show ?thesis
    by (simp add: retry_unfold retries_def f exhausted_def Let_def)
qed

lemma attempt_loop_calls:
  "length attempts \<le> 3 \<Longrightarrow>
   ncalls (snd (attempt_loop service text_content attempts w)) \<le> ncalls w + length attempts"
proof (induction attempts arbitrary: w)
  case Nil
  then show ?case by simp
next
  case (Cons a as)
  show ?case
  proof (cases "service (ncalls w) text_content")
    case (Inr v)
    then show ?thesis by (simp add: Let_def)
  next
    case (Inl e)
    show ?thesis
    proof (cases "a < retries - 1")
      case True
      let ?w = "w\<lparr>ncalls := Suc (ncalls w),
                  steps := steps w @ [EmbedRequest text_content, Sleep (2 ^ a)]\<rparr>"
      from Cons.prems have "length as \<le> 3" by simp
      from Cons.IH [OF this, of ?w]
      have "ncalls (snd (attempt_loop service text_content as ?w)) \<le> Suc (ncalls w) + length as"
        by simp
      with Inl True show ?thesis by (simp add: Let_def)
    next
      case False
      with Inl show ?thesis by (simp add: Let_def)
    qed
  qed
qed

lemma retry_calls:
  "ncalls (snd (generate_embedding_with_retry service text_content w)) \<le> ncalls w + 3"
  using attempt_loop_calls [of "[0, 1, 2]" service text_content w]
  by (simp add: retry_unfold)

lemma retry_first_call:
  "ncalls w < ncalls (snd (generate_embedding_with_retry service text_content w))"
proof (cases "service (ncalls w) text_content")
  case (Inr v)
  then show ?thesis
    by (simp add: retry_unfold Let_def)
next
  case (Inl e0)
  show ?thesis
  proof (cases "service (Suc (ncalls w)) text_content")
    case (Inr v)
    with Inl show ?thesis
      by (simp add: retry_unfold retries_def Let_def)
  next
    case e1: (Inl e1)
    show ?thesis
      using Inl e1
      by (cases "service (Suc (Suc (ncalls w))) text_content")
         (simp_all add: retry_unfold retries_def Let_def)
  qed
qed

text \<open>
  Claim C8. The embedding call of the corpus construction makes at least one and at most
  three attempts and stops at the first that succeeds, yielding the vector the service
  answered: at once when the first attempt succeeds, after a sleep of one second when
  only the first fails, after sleeps of one and then two seconds when the first two fail.
  When all three attempts fail it has slept one second after the first failure and two
  seconds after the second, sleeps no more after the third, and yields a null embedding
  instead of raising. The loop over the documents gives the record the embedding the call
  yielded, null after three failures, and goes on with the remaining documents.
\<close>

theorem retry_then_null:
  "(\<forall>v. service (ncalls w) text_content = Inr v \<longrightarrow>
      generate_embedding_with_retry service text_content w =
        (Some v, w\<lparr>ncalls := ncalls w + 1,
                   steps := steps w @ [EmbedRequest text_content]\<rparr>))
   \<and> (\<forall>e0 v. service (ncalls w) text_content = Inl e0
        \<and> service (ncalls w + 1) text_content = Inr v \<longrightarrow>
      generate_embedding_with_retry service text_content w =
        (Some v, w\<lparr>ncalls := ncalls w + 2,
                   steps := steps w @ [EmbedRequest text_content, Sleep 1,
                                       EmbedRequest text_content]\<rparr>))
   \<and> (\<forall>e0 e1 v. service (ncalls w) text_content = Inl e0
        \<and> service (ncalls w + 1) text_content = Inl e1
        \<and> service (ncalls w + 2) text_content = Inr v \<longrightarrow>
      generate_embedding_with_retry service text_content w =
        (Some v, exhausted text_content w))
   \<and> ((\<forall>i<3. \<exists>e. service (ncalls w + i) text_content = Inl e) \<longrightarrow>
      generate_embedding_with_retry service text_content w = (None, exhausted text_content w))
   \<and> ncalls w < ncalls (snd (generate_embedding_with_retry service text_content w))
   \<and> ncalls (snd (generate_embedding_with_retry service text_content w)) \<le> ncalls w + 3
   \<and> (strip (embedding_text clean doc_data) \<noteq> []
        \<and> (\<forall>i<3. \<exists>e. service (ncalls w + i) (embedding_text clean doc_data) = Inl e) \<longrightarrow>
      process_docs clean service (doc_data # raw_docs) w =
        (doc_data\<lparr>embedding := None\<rparr> #
           fst (process_docs clean service raw_docs
                  (exhausted (embedding_text clean doc_data) w)),
         snd (process_docs clean service raw_docs
                (exhausted (embedding_text clean doc_data) w))))
   \<and> (strip (embedding_text clean doc_data) \<noteq> [] \<longrightarrow>
      process_docs clean service (doc_data # raw_docs) w =
        (doc_data\<lparr>embedding :=
             fst (generate_embedding_with_retry service (embedding_text clean doc_data) w)\<rparr> #
           fst (process_docs clean service raw_docs
                  (snd (generate_embedding_with_retry service
                          (embedding_text clean doc_data) w))),
         snd (process_docs clean service raw_docs
                (snd (generate_embedding_with_retry service
                        (embedding_text clean doc_data) w)))))"
proof (intro conjI impI allI)
  fix v
  assume "service (ncalls w) text_content = Inr v"
  then show "generate_embedding_with_retry service text_content w =
      (Some v, w\<lparr>ncalls := ncalls w + 1, steps := steps w @ [EmbedRequest text_content]\<rparr>)"
    by (simp add: retry_unrolled)
next
  fix e0 v
  assume "service (ncalls w) text_content = Inl e0
        \<and> service (ncalls w + 1) text_content = Inr v"
  then show "generate_embedding_with_retry service text_content w =
      (Some v, w\<lparr>ncalls := ncalls w + 2,
                 steps := steps w @ [EmbedRequest text_content, Sleep 1,
                                     EmbedRequest text_content]\<rparr>)"
    by (simp add: retry_unrolled)
next
  fix e0 e1 v
  assume "service (ncalls w) text_content = Inl e0
        \<and> service (ncalls w + 1) text_content = Inl e1
        \<and> service (ncalls w + 2) text_content = Inr v"
  then show "generate_embedding_with_retry service text_content w =
      (Some v, exhausted text_content w)"
    by (simp add: retry_unrolled)
next
  assume "\<forall>i<3. \<exists>e. service (ncalls w + i) text_content = Inl e"
  then show "generate_embedding_with_retry service text_content w =
      (None, exhausted text_content w)"
    by (rule retry_exhausted)
next
  show "ncalls w < ncalls (snd (generate_embedding_with_retry service text_content w))"
    by (rule retry_first_call)
next
  show "ncalls (snd (generate_embedding_with_retry service text_content w)) \<le> ncalls w + 3"
    by (rule retry_calls)
next
  assume a: "strip (embedding_text clean doc_data) \<noteq> []
        \<and> (\<forall>i<3. \<exists>e. service (ncalls w + i) (embedding_text clean doc_data) = Inl e)"
  then have "generate_embedding_with_retry service (embedding_text clean doc_data) w =
      (None, exhausted (embedding_text clean doc_data) w)"
    by (simp add: retry_exhausted)
  with a have "process_doc clean service doc_data w =
      (doc_data\<lparr>embedding := None\<rparr>, exhausted (embedding_text clean doc_data) w)"
    by (simp add: process_doc_def)
  then show "process_docs clean service (doc_data # raw_docs) w =
        (doc_data\<lparr>embedding := None\<rparr> #
           fst (process_docs clean service raw_docs
                  (exhausted (embedding_text clean doc_data) w)),
         snd (process_docs clean service raw_docs
                (exhausted (embedding_text clean doc_data) w)))"
    by (simp add: split_beta)
next
  assume a: "strip (embedding_text clean doc_data) \<noteq> []"
  obtain r w' where g:
    "generate_embedding_with_retry service (embedding_text clean doc_data) w = (r, w')"
    by (cases "generate_embedding_with_retry service (embedding_text clean doc_data) w")
  with a have "process_doc clean service doc_data w = (doc_data\<lparr>embedding := r\<rparr>, w')"
    by (cases r) (simp_all add: process_doc_def)
  with g show "process_docs clean service (doc_data # raw_docs) w =
        (doc_data\<lparr>embedding :=
             fst (generate_embedding_with_retry service (embedding_text clean doc_data) w)\<rparr> #
           fst (process_docs clean service raw_docs
                  (snd (generate_embedding_with_retry service
                          (embedding_text clean doc_data) w))),
         snd (process_docs clean service raw_docs
                (snd (generate_embedding_with_retry service
                        (embedding_text clean doc_data) w))))"
    by (simp add: split_beta)
qed

theorem retry_then_null_witness:
  "generate_embedding_with_retry (flaky_service 0) ''PAM'' \<lparr>ncalls = 0, steps = []\<rparr> =
     (Some [0], \<lparr>ncalls = 1, steps = [EmbedRequest ''PAM'']\<rparr>)
   \<and> generate_embedding_with_retry (flaky_service 1) ''PAM'' \<lparr>ncalls = 0, steps = []\<rparr> =
     (Some [1], \<lparr>ncalls = 2,
                 steps = [EmbedRequest ''PAM'', Sleep 1, EmbedRequest ''PAM'']\<rparr>)
   \<and> generate_embedding_with_retry (flaky_service 2) ''PAM'' \<lparr>ncalls = 0, steps = []\<rparr> =
     (Some [2], \<lparr>ncalls = 3,
                 steps = [EmbedRequest ''PAM'', Sleep 1, EmbedRequest ''PAM'', Sleep 2,
                          EmbedRequest ''PAM'']\<rparr>)
   \<and> generate_embedding_with_retry down_service ''PAM'' \<lparr>ncalls = 0, steps = []\<rparr> =
     (None, \<lparr>ncalls = 3,
             steps = [EmbedRequest ''PAM'', Sleep 1, EmbedRequest ''PAM'', Sleep 2,
                      EmbedRequest ''PAM'']\<rparr>)
   \<and> fst (process_docs id down_service
          [sample_doc ''a'' None, sample_doc ''b'' None] \<lparr>ncalls = 0, steps = []\<rparr>) =
       [sample_doc ''a'' None, sample_doc ''b'' None]
   \<and> ncalls (snd (process_docs id down_service
          [sample_doc ''a'' None, sample_doc ''b'' None] \<lparr>ncalls = 0, steps = []\<rparr>)) = 6
   \<and> process_docs id (flaky_service 1)
          [sample_doc ''a'' None, sample_doc ''b'' None] \<lparr>ncalls = 0, steps = []\<rparr> =
       ([sample_doc ''a'' (Some [1]), sample_doc ''b'' (Some [2])],
        \<lparr>ncalls = 3,
         steps = [EmbedRequest ''a. PAM overview'', Sleep 1, EmbedRequest ''a. PAM overview'',
                  EmbedRequest ''b. PAM overview'']\<rparr>)"
proof -
  let ?w0 = "\<lparr>ncalls = 0, steps = []\<rparr>"
  let ?a = "sample_doc ''a'' None" and ?b = "sample_doc ''b'' None"
  have down: "\<forall>i<3. \<exists>e. down_service (ncalls w + i) t = Inl e" for w t
    by (simp add: down_service_def)
  have ta: "strip (embedding_text id ?a) \<noteq> []" and tb: "strip (embedding_text id ?b) \<noteq> []"
    by (simp_all add: embedding_text_def sample_doc_def get_or_def strip_def is_space_def)
  have texta: "embedding_text id ?a = ''a. PAM overview''"
    and textb: "embedding_text id ?b = ''b. PAM overview''"
    by (simp_all add: embedding_text_def sample_doc_def get_or_def)
  have s0: "generate_embedding_with_retry (flaky_service 0) ''PAM'' ?w0 =
      (Some [0], \<lparr>ncalls = 1, steps = [EmbedRequest ''PAM'']\<rparr>)"
    using retry_then_null [of "flaky_service 0" ?w0 "''PAM''" id ?a "[]"]
    by (simp add: flaky_service_def)
  have s1: "generate_embedding_with_retry (flaky_service 1) t ?w0 =
      (Some [1], \<lparr>ncalls = 2, steps = [EmbedRequest t, Sleep 1, EmbedRequest t]\<rparr>)" for t
    using retry_then_null [of "flaky_service 1" ?w0 t id ?a "[]"]
    by (simp add: flaky_service_def)
  have s1': "generate_embedding_with_retry (flaky_service 1) t \<lparr>ncalls = 2, steps = st\<rparr> =
      (Some [2], \<lparr>ncalls = 3, steps = st @ [EmbedRequest t]\<rparr>)" for t st
    using retry_then_null [of "flaky_service 1" "\<lparr>ncalls = 2, steps = st\<rparr>" t id ?a "[]"]
    by (simp add: flaky_service_def)
  have s2: "generate_embedding_with_retry (flaky_service 2) ''PAM'' ?w0 =
      (Some [2], \<lparr>ncalls = 3,
                 steps = [EmbedRequest ''PAM'', Sleep 1, EmbedRequest ''PAM'', Sleep 2,
                          EmbedRequest ''PAM'']\<rparr>)"
    using retry_then_null [of "flaky_service 2" ?w0 "''PAM''" id ?a "[]"]
    by (simp add: flaky_service_def exhausted_def)
  note th = retry_then_null [of down_service _ _ id]
  have r: "generate_embedding_with_retry down_service ''PAM'' ?w0 = (None, exhausted ''PAM'' ?w0)"
    using th [of ?w0 "''PAM''"] down by blast
  have pa: "process_docs id down_service [?a, ?b] ?w0 =
      (?a\<lparr>embedding := None\<rparr> #
         fst (process_docs id down_service [?b] (exhausted (embedding_text id ?a) ?w0)),
       snd (process_docs id down_service [?b] (exhausted (embedding_text id ?a) ?w0)))"
    using th [of ?w0 _ ?a "[?b]"] ta down by blast
  have pb: "process_docs id down_service [?b] w =
      (?b\<lparr>embedding := None\<rparr> #
         fst (process_docs id down_service [] (exhausted (embedding_text id ?b) w)),
       snd (process_docs id down_service [] (exhausted (embedding_text id ?b) w)))" for w
    using th [of w _ ?b "[]"] tb down by blast
  have none: "?a\<lparr>embedding := None\<rparr> = ?a" "?b\<lparr>embedding := None\<rparr> = ?b"
    by (simp_all add: sample_doc_def)
  have upd: "?a\<lparr>embedding := Some [1]\<rparr> = sample_doc ''a'' (Some [1])"
    "?b\<lparr>embedding := Some [2]\<rparr> = sample_doc ''b'' (Some [2])"
    by (simp_all add: sample_doc_def)
  have fa: "process_docs id (flaky_service 1) [?a, ?b] ?w0 =
      (?a\<lparr>embedding :=
           fst (generate_embedding_with_retry (flaky_service 1) (embedding_text id ?a) ?w0)\<rparr> #
         fst (process_docs id (flaky_service 1) [?b]
                (snd (generate_embedding_with_retry (flaky_service 1)
                        (embedding_text id ?a) ?w0))),
       snd (process_docs id (flaky_service 1) [?b]
              (snd (generate_embedding_with_retry (flaky_service 1)
                      (embedding_text id ?a) ?w0))))"
    using retry_then_null [of "flaky_service 1" ?w0 "''PAM''" id ?a "[?b]"] ta by blast
  have fb: "process_docs id (flaky_service 1) [?b] w =
      (?b\<lparr>embedding :=
           fst (generate_embedding_with_retry (flaky_service 1) (embedding_text id ?b) w)\<rparr> #
         fst (process_docs id (flaky_service 1) []
                (snd (generate_embedding_with_retry (flaky_service 1)
                        (embedding_text id ?b) w))),
       snd (process_docs id (flaky_service 1) []
              (snd (generate_embedding_with_retry (flaky_service 1)
                      (embedding_text id ?b) w))))" for w
    using retry_then_null [of "flaky_service 1" w "''PAM''" id ?b "[]"] tb by blast
  from r have "generate_embedding_with_retry down_service ''PAM'' ?w0 =
     (None, \<lparr>ncalls = 3,
             steps = [EmbedRequest ''PAM'', Sleep 1, EmbedRequest ''PAM'', Sleep 2,
                      EmbedRequest ''PAM'']\<rparr>)"
    by (simp add: exhausted_def)
  moreover have "fst (process_docs id down_service [?a, ?b] ?w0) = [?a, ?b]"
    unfolding pa pb by (simp add: none)
  moreover have "ncalls (snd (process_docs id down_service [?a, ?b] ?w0)) = 6"
    unfolding pa pb by (simp add: exhausted_def)
  moreover have "process_docs id (flaky_service 1) [?a, ?b] ?w0 =
       ([sample_doc ''a'' (Some [1]), sample_doc ''b'' (Some [2])],
        \<lparr>ncalls = 3,
         steps = [EmbedRequest ''a. PAM overview'', Sleep 1, EmbedRequest ''a. PAM overview'',
                  EmbedRequest ''b. PAM overview'']\<rparr>)"
  proof -
    let ?w2 = "\<lparr>ncalls = 2, steps = [EmbedRequest ''a. PAM overview'', Sleep 1,
                                      EmbedRequest ''a. PAM overview'']\<rparr>"
    have ga: "generate_embedding_with_retry (flaky_service 1) ''a. PAM overview'' ?w0 =
        (Some [1], ?w2)"
      by (rule s1)
    have gb: "generate_embedding_with_retry (flaky_service 1) ''b. PAM overview'' ?w2 =
        (Some [2], \<lparr>ncalls = 3,
                   steps = [EmbedRequest ''a. PAM overview'', Sleep 1,
                            EmbedRequest ''a. PAM overview''] @
                           [EmbedRequest ''b. PAM overview'']\<rparr>)"
      by (rule s1')
    have tail: "process_docs id (flaky_service 1) [?b] ?w2 =
        ([sample_doc ''b'' (Some [2])],
         \<lparr>ncalls = 3,
          steps = [EmbedRequest ''a. PAM overview'', Sleep 1, EmbedRequest ''a. PAM overview'',
                   EmbedRequest ''b. PAM overview'']\<rparr>)"
      by (subst fb)
         (simp only: textb gb fst_conv snd_conv process_docs.simps(1) upd append.simps)
    show ?thesis
      by (subst fa) (simp only: texta ga fst_conv snd_conv tail upd)
  qed
  ultimately show ?thesis using s0 s1 [of "''PAM''"] s2 by blast
qed

lemma attempt_loop_some:
  "attempt_loop service text_content attempts w = (Some v, w') \<Longrightarrow>
   \<exists>n. service n text_content = Inr v"
proof (induction attempts arbitrary: w)
  case Nil
  then show ?case by simp
next
  case (Cons a as)
  show ?case
  proof (cases "service (ncalls w) text_content")
    case (Inr u)
    with Cons.prems have "u = v" by (simp add: Let_def)
    with Inr show ?thesis by blast
  next
    case (Inl e)
    show ?thesis
    proof (cases "a < retries - 1")
      case True
      with Inl Cons.prems show ?thesis using Cons.IH by (simp add: Let_def)
    next
      case False
      with Inl Cons.prems show ?thesis by (simp add: Let_def)
    qed
  qed
qed

lemma process_doc_frame:
  "fst (process_doc clean service doc_data w) = doc_data\<lparr>embedding := None\<rparr>
   \<or> (\<exists>n v. service n (embedding_text clean doc_data) = Inr v
        \<and> fst (process_doc clean service doc_data w) = doc_data\<lparr>embedding := Some v\<rparr>)"
proof (cases "strip (embedding_text clean doc_data) = []")
  case True
  then show ?thesis by (simp add: process_doc_def)
next
  case False
  obtain r w' where g:
    "generate_embedding_with_retry service (embedding_text clean doc_data) w = (r, w')"
    by (cases "generate_embedding_with_retry service (embedding_text clean doc_data) w")
  show ?thesis
  proof (cases r)
    case None
    with g False show ?thesis by (simp add: process_doc_def)
  next
    case (Some v)
    with g have "\<exists>n. service n (embedding_text clean doc_data) = Inr v"
      unfolding generate_embedding_with_retry_def by (auto dest: attempt_loop_some)
    with g Some False show ?thesis by (auto simp add: process_doc_def)
  qed
qed

lemma process_docs_frame:
  "list_all2
     (\<lambda>d d'. d' = d\<lparr>embedding := None\<rparr>
        \<or> (\<exists>n v. service n (embedding_text clean d) = Inr v \<and> d' = d\<lparr>embedding := Some v\<rparr>))
     raw_docs (fst (process_docs clean service raw_docs w))"
proof (induction raw_docs arbitrary: w)
  case Nil
  show ?case by simp
next
  case (Cons d ds)
  obtain d' w1 where p: "process_doc clean service d w = (d', w1)"
    by (cases "process_doc clean service d w")
  with process_doc_frame [of clean service d w]
  have h: "d' = d\<lparr>embedding := None\<rparr>
      \<or> (\<exists>n v. service n (embedding_text clean d) = Inr v \<and> d' = d\<lparr>embedding := Some v\<rparr>)"
    by simp
  from p have "fst (process_docs clean service (d # ds) w) =
      d' # fst (process_docs clean service ds w1)"
    by (simp add: split_beta)
  with h Cons.IH [of w1] show ?case by simp
qed

lemma process_docs_expected:
  "fst (process_docs clean service raw_docs w) =
     expected_docs clean service raw_docs (ncalls w)"
proof (induction raw_docs arbitrary: w)
  case Nil
  show ?case by simp
next
  case (Cons d ds)
  show ?case
  proof (cases "strip (embedding_text clean d) = []")
    case True
    then have "process_doc clean service d w = (d\<lparr>embedding := None\<rparr>, w)"
      by (simp add: process_doc_def)
    with True Cons.IH [of w] show ?thesis by (simp add: split_beta)
  next
    case False
    let ?g = "generate_embedding_with_retry service (embedding_text clean d) w"
    from False have "process_doc clean service d w = (d\<lparr>embedding := fst ?g\<rparr>, snd ?g)"
      by (cases ?g; cases "fst ?g") (simp_all add: process_doc_def)
    moreover note retry_meets_outcome [of service "embedding_text clean d" w]
    ultimately show ?thesis using False Cons.IH [of "snd ?g"] by (simp add: split_beta)
  qed
qed

text \<open>
  Claim C10. For every list of input documents the pipeline emits exactly one record per
  input record, in the same order, with title, slug, content and file path unchanged; the
  only change is the embedding field. The emitted list is the list \<open>expected_docs\<close>: the
  embedding of a record is null, without any call, when its cleaned text is blank (skip);
  otherwise it is the vector answered by the first of its three attempts that succeeds
  (success), and null when all three fail (failure). The list written to the output file is
  this list (nothing is written for an empty input).
\<close>

theorem pipeline_frame:
  fixes raw_docs :: "'a doc_info list"
    and clean :: "string \<Rightarrow> string"
    and service :: "nat \<Rightarrow> string \<Rightarrow> exn + 'a list"
    and w :: world
  defines "out \<equiv> fst (process_docs clean service raw_docs w)"
  shows "length out = length raw_docs
       \<and> map title out = map title raw_docs
       \<and> map slug out = map slug raw_docs
       \<and> map content out = map content raw_docs
       \<and> map filepath out = map filepath raw_docs
       \<and> list_all2
            (\<lambda>d d'. d' = d\<lparr>embedding := None\<rparr>
               \<or> (\<exists>n v. service n (embedding_text clean d) = Inr v
                    \<and> d' = d\<lparr>embedding := Some v\<rparr>))
            raw_docs out
       \<and> out = expected_docs clean service raw_docs (ncalls w)
       \<and> fst (generate_embeddings_for_docs clean service (Some raw_docs)) =
            (if raw_docs = [] then None
             else Some (expected_docs clean service raw_docs 0))"
proof -
  let ?R = "\<lambda>d d'. d' = d\<lparr>embedding := None\<rparr>
               \<or> (\<exists>n v. service n (embedding_text clean d) = Inr v
                    \<and> d' = d\<lparr>embedding := Some v\<rparr>)"
  have fr: "list_all2 ?R raw_docs out" unfolding out_def by (rule process_docs_frame)
  then have len: "length out = length raw_docs" by (simp add: list_all2_lengthD)
  have field: "map f out = map f raw_docs"
    if "\<And>d e. f (d\<lparr>embedding := e\<rparr>) = f d" for f :: "'a doc_info \<Rightarrow> string option"
  proof (rule nth_equalityI)
    show "length (map f out) = length (map f raw_docs)" using len by simp
  next
    fix i assume "i < length (map f out)"
    then have i: "i < length raw_docs" using len by simp
    from fr i have "?R (raw_docs ! i) (out ! i)" by (rule list_all2_nthD)
    then have "f (out ! i) = f (raw_docs ! i)" using that by auto
    with i len show "map f out ! i = map f raw_docs ! i" by simp
  qed
  have ex: "out = expected_docs clean service raw_docs (ncalls w)"
    unfolding out_def by (rule process_docs_expected)
  have e0: "fst (process_docs clean service raw_docs \<lparr>ncalls = 0, steps = []\<rparr>)
      = expected_docs clean service raw_docs 0"
    using process_docs_expected [of clean service raw_docs "\<lparr>ncalls = 0, steps = []\<rparr>"]
    by simp
  have l0: "length (expected_docs clean service raw_docs 0) = length raw_docs"
    using process_docs_frame [of service clean raw_docs "\<lparr>ncalls = 0, steps = []\<rparr>"] e0
    by (simp add: list_all2_lengthD)
  have top: "fst (generate_embeddings_for_docs clean service (Some raw_docs)) =
            (if raw_docs = [] then None
             else Some (expected_docs clean service raw_docs 0))"
    using l0 e0 by (auto simp add: generate_embeddings_for_docs_def split_beta)
  from len fr ex top field [of title] field [of slug] field [of content] field [of filepath]
  show ?thesis by simp
qed

theorem pipeline_frame_witness:
  "fst (process_docs sample_clean (flaky_service 4)
          [sample_doc ''a'' None, sample_doc ''#'' None, sample_doc ''b'' None]
          \<lparr>ncalls = 0, steps = []\<rparr>) =
     [sample_doc ''a'' None, sample_doc ''#'' None, sample_doc ''b'' (Some [4])]
   \<and> fst (generate_embeddings_for_docs sample_clean (flaky_service 1)
          (Some [sample_doc ''a'' None, sample_doc ''#'' None, sample_doc ''b'' None])) =
     Some [sample_doc ''a'' (Some [1]), sample_doc ''#'' None, sample_doc ''b'' (Some [2])]"
proof -
  let ?docs = "[sample_doc ''a'' None, sample_doc ''#'' None, sample_doc ''b'' None]"
  have e4: "expected_docs sample_clean (flaky_service 4) ?docs 0 =
      [sample_doc ''a'' None, sample_doc ''#'' None, sample_doc ''b'' (Some [4])]"
    by (simp add: embedding_text_def sample_doc_def get_or_def sample_clean_def
        flaky_service_def strip_def is_space_def numeral_3_eq_3)
  have e1: "expected_docs sample_clean (flaky_service 1) ?docs 0 =
      [sample_doc ''a'' (Some [1]), sample_doc ''#'' None, sample_doc ''b'' (Some [2])]"
    by (simp add: embedding_text_def sample_doc_def get_or_def sample_clean_def
        flaky_service_def strip_def is_space_def numeral_3_eq_3)
  from pipeline_frame [of sample_clean "flaky_service 4" ?docs "\<lparr>ncalls = 0, steps = []\<rparr>"] e4
  have a: "fst (process_docs sample_clean (flaky_service 4) ?docs \<lparr>ncalls = 0, steps = []\<rparr>) =
     [sample_doc ''a'' None, sample_doc ''#'' None, sample_doc ''b'' (Some [4])]"
    by simp
  from pipeline_frame [of sample_clean "flaky_service 1" ?docs "\<lparr>ncalls = 0, steps = []\<rparr>"] e1
  have b: "fst (generate_embeddings_for_docs sample_clean (flaky_service 1) (Some ?docs)) =
     Some [sample_doc ''a'' (Some [1]), sample_doc ''#'' None, sample_doc ''b'' (Some [2])]"
    by simp
  from a b show ?thesis by blast
qed

end
